theory Spec2Isabelle
  imports Complex_Main "HOL-Library.Word" "HOL-Library.Signed_Division" "HOL-Library.Monad_Syntax"
begin

section \<open>Native calls and the resource manager (gfx/gl2/device.go, gfx/gl2/rtt.go)\<close>

text \<open>
  Go's conversion \<open>int32(x)\<close> of an \<open>int\<close>: the low 32 bits, read as a signed number.
\<close>

definition int32 :: "int \<Rightarrow> int" where
  "int32 x = sint (word_of_int x :: 32 word)"

text \<open>The conversion \<open>uint32(x)\<close>: the low 32 bits, read as an unsigned number.\<close>

definition uint32 :: "int \<Rightarrow> int" where
  "uint32 x = uint (word_of_int x :: 32 word)"

text \<open>
  \<open>image.Point\<close> and \<open>image.Rectangle\<close> of the Go standard library, with the functions
  the device uses: \<open>Empty\<close>, \<open>Dx\<close>, \<open>Dy\<close> and the constructor \<open>image.Rect\<close>, which orders
  the corners.
\<close>

record Point =
  X :: int
  Y :: int

record Rectangle =
  Min_pt :: Point
  Max_pt :: Point

definition Empty :: "Rectangle \<Rightarrow> bool" where
  "Empty r = (X (Max_pt r) \<le> X (Min_pt r) \<or> Y (Max_pt r) \<le> Y (Min_pt r))"

definition Rect :: "int \<Rightarrow> int \<Rightarrow> int \<Rightarrow> int \<Rightarrow> Rectangle" where
  "Rect x0 y0 x1 y1 =
     \<lparr>Min_pt = \<lparr>X = (if x0 > x1 then x1 else x0), Y = (if y0 > y1 then y1 else y0)\<rparr>,
      Max_pt = \<lparr>X = (if x0 > x1 then x0 else x1), Y = (if y0 > y1 then y0 else y1)\<rparr>\<rparr>"

definition Dx :: "Rectangle \<Rightarrow> int" where
  "Dx r = X (Max_pt r) - X (Min_pt r)"

definition Dy :: "Rectangle \<Rightarrow> int" where
  "Dy r = Y (Max_pt r) - Y (Min_pt r)"

text \<open>\<open>gfx.Color\<close>: four float32 components, only handed on to the native layer.\<close>

datatype Color = MkColor real real real real

text \<open>
  The calls that leave the Go code, in the order they are made: calls of the OpenGL
  binding (\<open>Delete FRAMEBUFFER n hs\<close> is \<open>gl.DeleteFramebuffers(n, &hs[0])\<close>, and so on),
  calls of the graphics-state cache of package glc, the \<open>free\<close> methods of native meshes
  and shaders, the buffer swap of the window, and the lock and unlock of the resource
  manager's mutex. A deletion call carries the count that is passed (an
  int32) and the slice its pointer argument points into.
\<close>

datatype name_kind = TEXTURE | FRAMEBUFFER | RENDERBUFFER

datatype attachment = COLOR_ATTACHMENT0 | DEPTH_ATTACHMENT | STENCIL_ATTACHMENT

datatype clear_bit = COLOR_BUFFER_BIT | DEPTH_BUFFER_BIT | STENCIL_BUFFER_BIT

datatype query_call =
    QUERY_RESULT_AVAILABLE "32 word"
  | QUERY_RESULT "32 word"
  | DeleteQueries "32 word"

datatype state_call =
    Begin
  | ColorWrite bool bool bool bool
  | DepthWrite bool
  | stencilMaskSeparate int int
  | Scissor Rectangle Rectangle
  | ClearColor Color
  | ClearDepth real
  | ClearStencil int

datatype event =
    RsrcLock
  | RsrcUnlock
  | FreeMesh nat
  | FreeShader nat
  | Delete name_kind int "32 word list"
  | Flush
  | Query query_call
  | Bind name_kind "32 word"
  | GenerateMipmap
  | GraphicsState state_call
  | Clear clear_bit
  | Gen name_kind "32 word"
  | RenderbufferStorageMultisample int int int int
  | FramebufferRenderbuffer attachment "32 word"
  | NewNativeTexture "32 word" int int int
  | TexImage2D int int int
  | FramebufferTexture2D attachment "32 word"
  | CheckFramebufferStatus
  | SwapBuffers

text \<open>
  \<open>rsrcManager\<close>: the resources to free at the next opportunity. Native meshes and
  shaders are pointers (their types are declared in other files); textures, FBOs and
  renderbuffers are OpenGL names.
\<close>

record rsrcManager =
  meshes :: "nat list"
  shaders :: "nat list"
  textures :: "32 word list"
  fbos :: "32 word list"
  renderbuffers :: "32 word list"

text \<open>
  \<open>freeFBOs\<close> and \<open>freeRenderbuffers\<close> (rtt.go): lock, one batched deletion and a flush
  when the list is not empty, slice to zero, unlock.
\<close>

definition freeFBOs :: "rsrcManager \<Rightarrow> rsrcManager \<times> event list" where
  "freeFBOs r =
     (r\<lparr>fbos := []\<rparr>,
      [RsrcLock]
      @ (if length (fbos r) > 0
         then [Delete FRAMEBUFFER (int32 (int (length (fbos r)))) (fbos r), Flush]
         else [])
      @ [RsrcUnlock])"

definition freeRenderbuffers :: "rsrcManager \<Rightarrow> rsrcManager \<times> event list" where
  "freeRenderbuffers r =
     (r\<lparr>renderbuffers := []\<rparr>,
      [RsrcLock]
      @ (if length (renderbuffers r) > 0
         then [Delete RENDERBUFFER (int32 (int (length (renderbuffers r)))) (renderbuffers r),
               Flush]
         else [])
      @ [RsrcUnlock])"

text \<open>
  Modelled from the spec: \<open>rsrcManager.freeTextures\<close>, which \<open>freePending\<close> calls and which
  is defined in a file that is not among the sources. The specification's Resource
  Manager locks the list, swaps it for empty, unlocks, and then issues one batched native
  deletion covering all pending handles, followed by a flush of the command stream.
\<close>

definition freeTextures :: "rsrcManager \<Rightarrow> rsrcManager \<times> event list" where
  "freeTextures r =
     (r\<lparr>textures := []\<rparr>,
      [RsrcLock, RsrcUnlock]
      @ (if length (textures r) > 0
         then [Delete TEXTURE (int32 (int (length (textures r)))) (textures r), Flush]
         else []))"

text \<open>
  \<open>freePending\<close> (device.go): under one lock, every pending mesh and then every pending
  shader is freed and both lists are sliced to zero; after the unlock come
  \<open>freeTextures\<close>, \<open>freeFBOs\<close> and \<open>freeRenderbuffers\<close>. The \<open>log.Printf\<close> calls under
  \<open>tag.Gfxdebug\<close> write to the log only and are left out.
\<close>

definition freePending :: "rsrcManager \<Rightarrow> rsrcManager \<times> event list" where
  "freePending r =
     (let es0 = [RsrcLock] @ map FreeMesh (meshes r) @ map FreeShader (shaders r)
                @ [RsrcUnlock];
          r0 = r\<lparr>meshes := [], shaders := []\<rparr>;
          (r1, es1) = freeTextures r0;
          (r2, es2) = freeFBOs r1;
          (r3, es3) = freeRenderbuffers r2
      in (r3, es0 @ es1 @ es2 @ es3))"

text \<open>
  Reading a trace. \<open>deletions\<close> lists the deletions of a trace in the order they are
  made: a freed mesh, a freed shader, or a batch, which is one native deletion call with
  the names it frees (the first \<open>n\<close> names of the slice it points into).
  \<open>deletions_unlocked\<close> says that no deletion happens while the mutex is held;
  \<open>deletions_locked\<close> says that every deletion made by \<open>freePending\<close>, \<open>freeFBOs\<close> and
  \<open>freeRenderbuffers\<close> themselves (meshes, shaders, framebuffers, renderbuffers) happens
  while it is held.
\<close>

datatype deletion = MeshFreed nat | ShaderFreed nat | Batch name_kind "32 word list"

definition deletion_of :: "event \<Rightarrow> deletion option" where
  "deletion_of e =
     (case e of
        FreeMesh m \<Rightarrow> Some (MeshFreed m)
      | FreeShader s \<Rightarrow> Some (ShaderFreed s)
      | Delete k n hs \<Rightarrow> Some (Batch k (take (nat n) hs))
      | _ \<Rightarrow> None)"

fun deletions :: "event list \<Rightarrow> deletion list" where
  "deletions [] = []"
| "deletions (e # es) =
     (case deletion_of e of None \<Rightarrow> deletions es | Some x \<Rightarrow> x # deletions es)"

definition batch :: "name_kind \<Rightarrow> 32 word list \<Rightarrow> deletion list" where
  "batch k hs = (if hs = [] then [] else [Batch k hs])"

definition outside_freeTextures :: "event \<Rightarrow> bool" where
  "outside_freeTextures e = (case e of Delete TEXTURE n hs \<Rightarrow> False | _ \<Rightarrow> True)"

fun deletions_unlocked :: "bool \<Rightarrow> event list \<Rightarrow> bool" where
  "deletions_unlocked held [] = True"
| "deletions_unlocked held (e # es) =
     (if e = RsrcLock then deletions_unlocked True es
      else if e = RsrcUnlock then deletions_unlocked False es
      else if deletion_of e = None then deletions_unlocked held es
      else if held then False
      else deletions_unlocked held es)"

fun deletions_locked :: "bool \<Rightarrow> event list \<Rightarrow> bool" where
  "deletions_locked held [] = True"
| "deletions_locked held (e # es) =
     (if e = RsrcLock then deletions_locked True es
      else if e = RsrcUnlock then deletions_locked False es
      else if deletion_of e = None then deletions_locked held es
      else if outside_freeTextures e then (if held then deletions_locked held es else False)
      else deletions_locked held es)"

section \<open>The device (gfx/gl2/device.go) and its render-to-texture canvases (gfx/gl2/rtt.go)\<close>

text \<open>
  Types of package gfx that the sources use but do not declare. The formats are
  enumerations; the constructors are the names the sources mention, and one more stands
  for the remaining values. Pointers are natural numbers, a nil pointer is \<open>None\<close>.
  Where the sources call a method that is defined elsewhere and only reads the receiver
  (\<open>cfg.Valid()\<close>, \<open>cfg.DepthFormat.IsCombined()\<close>, \<open>t.MinFilter.Mipmapped()\<close>), the
  record carries the method's result as a field.
\<close>

datatype TexFormat = ZeroTexFormat | RGBA | RGB | OtherTexFormat nat

datatype DSFormat =
  ZeroDSFormat | Depth16 | Depth24 | Depth32 | Depth24AndStencil8 | OtherDSFormat nat

record RTTConfig =
  Bounds :: Rectangle
  ColorFormat :: TexFormat
  DepthFormat :: DSFormat
  StencilFormat :: DSFormat
  Samples :: int
  Color :: "nat option"
  Depth :: "nat option"
  Stencil :: "nat option"
  Valid :: bool
  DepthFormat_IsCombined :: bool

text \<open>
  \<open>gfx.Texture\<close>: \<open>NativeTexture\<close> holds the OpenGL name of the \<open>*nativeTexture\<close> stored
  in the interface field, or \<open>None\<close> when the field is nil; \<open>Source\<close> is the source image
  (a pointer) or nil.
\<close>

record Texture =
  Loaded :: bool
  Source :: "nat option"
  MinFilter_Mipmapped :: bool
  NativeTexture :: "32 word option"
  Bounds_tex :: Rectangle

text \<open>
  \<open>rttCanvas\<close>: the configuration, the bounds of its \<open>BaseCanvas\<close>, the framebuffer and
  renderbuffer names, and the count of live textures.
\<close>

record rttCanvas =
  cfg :: RTTConfig
  VBounds_canvas :: Rectangle
  fbo :: "32 word"
  rbColor :: "32 word"
  rbDepth :: "32 word"
  rbStencil :: "32 word"
  rbDepthAndStencil :: "32 word"
  textureCount :: int

text \<open>
  The closures the device passes around, as data. A hook is the \<open>pre\<close> or \<open>post\<close> argument
  of a hooked method: nil, \<open>rttBegin\<close> or \<open>rttEnd\<close> of a canvas, or the function literal that
  \<open>rttCanvas.Render\<close> passes as \<open>post\<close>. An operation is a closure sent on \<open>renderExec\<close>:
  the ones built by \<open>hookedClear\<close>, \<open>hookedClearDepth\<close>, \<open>hookedClearStencil\<close>,
  \<open>hookedQueryWait\<close> and \<open>hookedRender\<close>, the one the ticker of \<open>yield\<close> sends, and the one
  \<open>RenderToTexture\<close> sends, with the canvas and the three native formats it captured.
  (\<open>hookedDraw\<close> and \<open>hookedDownload\<close> are defined in files that are not among the
  sources.)
\<close>

datatype hook = hook_nil | hook_rttBegin nat | hook_rttEnd nat | hook_Render_post nat

datatype op =
    op_Clear Rectangle Color hook hook
  | op_ClearDepth Rectangle real hook hook
  | op_ClearStencil Rectangle int hook hook
  | op_QueryWait hook hook
  | op_Render hook hook
  | op_yield
  | op_RenderToTexture nat int int int

text \<open>
  What the OpenGL driver answers. Whether the result of a query is available depends on
  the moment of the call, counted in availability polls made so far; the names it
  generates are numbered in the order they are asked for; the status of a framebuffer
  depends on the configuration it was built from.
\<close>

record driver =
  queryAvailable :: "nat \<Rightarrow> 32 word \<Rightarrow> bool"
  queryResult :: "32 word \<Rightarrow> int"
  genName :: "nat \<Rightarrow> 32 word"
  framebufferStatus :: "RTTConfig \<Rightarrow> int"

text \<open>
  \<open>glc.FramebufferUnsupported\<close> and the other errors that \<open>Context.FramebufferStatus\<close>
  (package glc, not among the sources) may return.
\<close>

datatype error = FramebufferUnsupported | FramebufferError nat

datatype panic = Panic_invalid_configuration | Panic_error error

text \<open>
  The local variables of one \<open>RenderToTexture\<close> call that its closure writes on the
  device thread: the native textures it created (their OpenGL names) and \<open>fbError\<close>.
\<close>

record rtt_locals =
  nTexColor :: "32 word option"
  nTexDepth :: "32 word option"
  nTexStencil :: "32 word option"
  fbError :: "error option"

text \<open>
  \<open>pendingQuery\<close>: the query's OpenGL name and a pointer to the object it is for.
\<close>

record pendingQuery =
  id_query :: "32 word"
  o_query :: nat

text \<open>
  The state of one device. The first group of fields are those of the Go struct that the
  modelled methods read or write: the bounds of its \<open>BaseCanvas\<close>, the clock (the number
  of ticks), the resource manager, the buffered channel \<open>renderExec\<close> (its content, in
  order), the two extension flags, the pending queries, the format tables, the canvas
  being rendered to, the buffered channel \<open>renderComplete\<close> (the number of signals in it)
  and \<open>common.FramebufferStatus\<close>, a function of package glc. The second group is the
  memory the device's closures reach: canvases and textures by pointer, the sample count
  of the native object of every \<open>gfx.Object\<close>, the locals of the \<open>RenderToTexture\<close> call of
  every canvas, and the next unused pointer. The third group is the driver, the number
  of availability polls and of generated names so far, and the trace of the calls made.
\<close>

record device =
  VBounds :: Rectangle
  clock :: nat
  rsrc :: rsrcManager
  renderExec :: "op list"
  glArbFramebufferObject :: bool
  glArbOcclusionQuery :: bool
  pending :: "pendingQuery list"
  rttTexFormats :: "TexFormat \<Rightarrow> int option"
  rttDSFormats :: "DSFormat \<Rightarrow> int option"
  rttCanvas :: "nat option"
  renderComplete :: nat
  common_FramebufferStatus :: "int \<Rightarrow> error option"
  canvas_at :: "nat \<Rightarrow> rttCanvas"
  texture_at :: "nat \<Rightarrow> Texture"
  sampleCount :: "nat \<Rightarrow> int"
  locals_at :: "nat \<Rightarrow> rtt_locals"
  next_pointer :: nat
  gl :: driver
  polls :: nat
  names :: nat
  trace :: "event list"

definition emit :: "event list \<Rightarrow> device \<Rightarrow> device" where
  "emit es d = d\<lparr>trace := trace d @ es\<rparr>"

subsection \<open>Occlusion queries\<close>

text \<open>
  \<open>queryYield\<close>, first loop: every pending query is asked whether its result is
  available; when it is, the result is fetched, the query deleted, the sample count of
  the object's native object updated, and the query appended to \<open>toRemove\<close>. (The type
  assertion on \<open>NativeObject\<close> holds for every object whose query was queued by a draw.)
\<close>

fun queryYield_poll ::
  "pendingQuery list \<Rightarrow> pendingQuery list \<Rightarrow> device \<Rightarrow> pendingQuery list \<times> device" where
  "queryYield_poll [] toRemove d = (toRemove, d)"
| "queryYield_poll (query # qs) toRemove d =
     (let available = queryAvailable (gl d) (polls d) (id_query query);
          d1 = emit [Query (QUERY_RESULT_AVAILABLE (id_query query))] (d\<lparr>polls := polls d + 1\<rparr>)
      in if available
         then queryYield_poll qs (toRemove @ [query])
                (emit [Query (QUERY_RESULT (id_query query)), Query (DeleteQueries (id_query query))]
                   (d1\<lparr>sampleCount := (sampleCount d1)
                          (o_query query := queryResult (gl d) (id_query query))\<rparr>))
         else queryYield_poll qs toRemove d1)"

text \<open>
  Second loop. \<open>find_idx\<close> is the inner loop: the last index at which the query stands in
  the slice, 0 when it stands nowhere. The removal
  \<open>append(queries[:idx], queries[idx+1:]...)\<close> panics when \<open>idx+1\<close> exceeds the length:
  \<open>None\<close>.
\<close>

fun find_idx :: "pendingQuery \<Rightarrow> pendingQuery list \<Rightarrow> nat \<Rightarrow> nat \<Rightarrow> nat" where
  "find_idx query [] i idx = idx"
| "find_idx query (q # qs) i idx = find_idx query qs (i + 1) (if q = query then i else idx)"

fun queryYield_remove :: "pendingQuery list \<Rightarrow> pendingQuery list \<Rightarrow> pendingQuery list option" where
  "queryYield_remove [] queries = Some queries"
| "queryYield_remove (query # toRemove) queries =
     (let idx = find_idx query queries 0 0
      in if idx + 1 \<le> length queries
         then queryYield_remove toRemove (take idx queries @ drop (idx + 1) queries)
         else None)"

text \<open>
  \<open>queryYield\<close> returns the number of queries still pending (with the new state), 0 at
  once when the extension is absent.
\<close>

definition queryYield :: "device \<Rightarrow> (nat \<times> device) option" where
  "queryYield d =
     (if glArbOcclusionQuery d
      then (case queryYield_poll (pending d) [] d of
              (toRemove, d1) \<Rightarrow>
                (case queryYield_remove toRemove (pending d1) of
                   None \<Rightarrow> None
                 | Some queries \<Rightarrow> Some (length queries, d1\<lparr>pending := queries\<rparr>)))
      else Some (0, d))"

text \<open>
  \<open>queryWait\<close>: nothing when the extension is absent; otherwise the busy-wait
  \<open>for i := 0; r.queryYield() > 0; i++\<close>, which calls \<open>runtime.Gosched()\<close> in the
  iterations \<open>i\<close> with \<open>i != 0 && i%16 == 0\<close>. The loop may run forever: the result is
  \<open>None\<close> then. Otherwise it is the final value of \<open>i\<close> (the number of iterations of the
  body), the list of the iterations that called \<open>Gosched\<close>, and the new state. The counter
  is a Go \<open>int\<close> of 64 bits; the model counts in natural numbers, which agrees with it for
  the first \<open>2^63\<close> iterations.
\<close>

partial_function (option) queryWait_loop ::
  "nat \<Rightarrow> nat list \<Rightarrow> device \<Rightarrow> (nat \<times> nat list \<times> device) option" where
  "queryWait_loop i gosched d =
     (case queryYield d of
        None \<Rightarrow> None
      | Some (n, d1) \<Rightarrow>
          if n > 0
          then queryWait_loop (i + 1) (if i \<noteq> 0 \<and> i mod 16 = 0 then gosched @ [i] else gosched) d1
          else Some (i, gosched, d1))"

declare queryWait_loop.simps [code]

definition queryWait :: "device \<Rightarrow> (nat \<times> nat list \<times> device) option" where
  "queryWait d = (if glArbOcclusionQuery d then queryWait_loop 0 [] d else Some (0, [], d))"

subsection \<open>Hooks and the operations on the render channel\<close>

definition update_canvas :: "nat \<Rightarrow> (rttCanvas \<Rightarrow> rttCanvas) \<Rightarrow> device \<Rightarrow> device" where
  "update_canvas c f d = d\<lparr>canvas_at := (canvas_at d)(c := f (canvas_at d c))\<rparr>"

text \<open>
  \<open>rttBegin\<close> and \<open>rttEnd\<close> set and clear the device's current canvas and bind and unbind
  its framebuffer.
\<close>

definition rttBegin :: "nat \<Rightarrow> device \<Rightarrow> device" where
  "rttBegin c d = emit [Bind FRAMEBUFFER (fbo (canvas_at d c))] (d\<lparr>rttCanvas := Some c\<rparr>)"

definition rttEnd :: "nat \<Rightarrow> device \<Rightarrow> device" where
  "rttEnd c d = emit [Bind FRAMEBUFFER 0] (d\<lparr>rttCanvas := None\<rparr>)"

text \<open>
  The function literal that \<open>rttCanvas.Render\<close> passes as \<open>post\<close>: \<open>do\<close> regenerates the
  mipmaps of a texture that is not nil and has a mipmapped filter; its type assertion on
  \<open>NativeTexture\<close> panics (\<open>None\<close>) when the field is nil.
\<close>

definition Render_do :: "nat option \<Rightarrow> device \<Rightarrow> device option" where
  "Render_do t d =
     (case t of
        None \<Rightarrow> Some d
      | Some p \<Rightarrow>
          if MinFilter_Mipmapped (texture_at d p)
          then (case NativeTexture (texture_at d p) of
                  None \<Rightarrow> None
                | Some n \<Rightarrow> Some (emit [Bind TEXTURE n, GenerateMipmap] d))
          else Some d)"

definition Render_post :: "nat \<Rightarrow> device \<Rightarrow> device option" where
  "Render_post c d =
     do {
       d1 \<leftarrow> Render_do (Color (cfg (canvas_at d c))) d;
       d2 \<leftarrow> Render_do (Depth (cfg (canvas_at d c))) d1;
       d3 \<leftarrow> Render_do (Stencil (cfg (canvas_at d c))) d2;
       Some (emit [Bind TEXTURE 0] d3)
     }"

fun call_hook :: "hook \<Rightarrow> device \<Rightarrow> device option" where
  "call_hook hook_nil d = Some d"
| "call_hook (hook_rttBegin c) d = Some (rttBegin c d)"
| "call_hook (hook_rttEnd c) d = Some (rttEnd c d)"
| "call_hook (hook_Render_post c) d = Render_post c d"

definition performScissor :: "Rectangle \<Rightarrow> device \<Rightarrow> device" where
  "performScissor rect d =
     (case rttCanvas d of
        Some c \<Rightarrow> emit [GraphicsState (Scissor (VBounds_canvas (canvas_at d c)) rect)] d
      | None \<Rightarrow> emit [GraphicsState (Scissor (VBounds d) rect)] d)"

text \<open>
  A send on \<open>renderComplete\<close>, a channel with room for 8 signals: with 8 signals waiting
  and nobody receiving, the send does not return.
\<close>

definition signal_renderComplete :: "device \<Rightarrow> device option" where
  "signal_renderComplete d =
     (if renderComplete d < 8 then Some (d\<lparr>renderComplete := renderComplete d + 1\<rparr>) else None)"

definition rsrcManager_freePending :: "device \<Rightarrow> device" where
  "rsrcManager_freePending d = (case freePending (rsrc d) of (r, es) \<Rightarrow> emit es (d\<lparr>rsrc := r\<rparr>))"

text \<open>The closures of \<open>hookedClear\<close>, \<open>hookedClearDepth\<close> and \<open>hookedClearStencil\<close>.\<close>

definition run_Clear :: "Rectangle \<Rightarrow> Color \<Rightarrow> hook \<Rightarrow> hook \<Rightarrow> device \<Rightarrow> (bool \<times> device) option" where
  "run_Clear rect bg pre post d =
     do {
       d1 \<leftarrow> call_hook pre d;
       (n, d2) \<leftarrow> queryYield
         (emit [GraphicsState (ClearColor bg), Clear COLOR_BUFFER_BIT]
            (performScissor rect
               (emit [GraphicsState Begin, GraphicsState (ColorWrite True True True True)] d1)));
       d3 \<leftarrow> call_hook post d2;
       Some (False, d3)
     }"

definition run_ClearDepth :: "Rectangle \<Rightarrow> real \<Rightarrow> hook \<Rightarrow> hook \<Rightarrow> device \<Rightarrow> (bool \<times> device) option" where
  "run_ClearDepth rect depth pre post d =
     do {
       d1 \<leftarrow> call_hook pre d;
       (n, d2) \<leftarrow> queryYield
         (emit [GraphicsState (ClearDepth depth), Clear DEPTH_BUFFER_BIT]
            (performScissor rect
               (emit [GraphicsState Begin, GraphicsState (DepthWrite True)] d1)));
       d3 \<leftarrow> call_hook post d2;
       Some (False, d3)
     }"

definition run_ClearStencil :: "Rectangle \<Rightarrow> int \<Rightarrow> hook \<Rightarrow> hook \<Rightarrow> device \<Rightarrow> (bool \<times> device) option" where
  "run_ClearStencil rect stencil pre post d =
     do {
       d1 \<leftarrow> call_hook pre d;
       (n, d2) \<leftarrow> queryYield
         (emit [GraphicsState (ClearStencil stencil), Clear STENCIL_BUFFER_BIT]
            (performScissor rect
               (emit [GraphicsState Begin, GraphicsState (stencilMaskSeparate 65535 65535)] d1)));
       d3 \<leftarrow> call_hook post d2;
       Some (False, d3)
     }"

text \<open>The closure of \<open>hookedQueryWait\<close>, and the one the ticker of \<open>yield\<close> sends.\<close>

definition run_QueryWait :: "hook \<Rightarrow> hook \<Rightarrow> device \<Rightarrow> (bool \<times> device) option" where
  "run_QueryWait pre post d =
     do {
       d1 \<leftarrow> call_hook pre d;
       (i, gosched, d2) \<leftarrow> queryWait (emit [Flush] d1);
       d3 \<leftarrow> call_hook post d2;
       d4 \<leftarrow> signal_renderComplete d3;
       Some (False, d4)
     }"

definition run_yield :: "device \<Rightarrow> (bool \<times> device) option" where
  "run_yield d =
     do {
       (n, d1) \<leftarrow> queryYield (rsrcManager_freePending d);
       Some (False, d1)
     }"

text \<open>
  The closure of \<open>RenderToTexture\<close>. \<open>gen\<close> is one of \<open>gl.GenFramebuffers(1, &x)\<close> and
  \<open>gl.GenRenderbuffers(1, &x)\<close>; \<open>renderbuffer\<close> is the block that creates a renderbuffer,
  gives it storage and attaches it; \<open>texture\<close> is the block that creates a native texture
  (through \<open>newNativeTexture\<close>, which is defined in a file that is not among the sources and
  is seen here as one call that yields a new name), fills it and attaches it. The width
  and height are \<open>int32(cfg.Bounds.Dx())\<close> and \<open>int32(cfg.Bounds.Dy())\<close>, the sample count
  \<open>int32(cfg.Samples)\<close>.
\<close>

definition gen :: "name_kind \<Rightarrow> device \<Rightarrow> 32 word \<times> device" where
  "gen k d =
     (let n = genName (gl d) (names d)
      in (n, emit [Gen k n] (d\<lparr>names := names d + 1\<rparr>)))"

definition renderbuffer ::
  "int \<Rightarrow> int \<Rightarrow> int \<Rightarrow> int \<Rightarrow> attachment list \<Rightarrow> device \<Rightarrow> 32 word \<times> device" where
  "renderbuffer samples format width height as d =
     (case gen RENDERBUFFER d of
        (rb, d1) \<Rightarrow>
          (rb, emit ([Bind RENDERBUFFER rb,
                      RenderbufferStorageMultisample samples (uint32 format) width height]
                     @ map (\<lambda>a. FramebufferRenderbuffer a rb) as) d1))"

definition texture :: "int \<Rightarrow> int \<Rightarrow> int \<Rightarrow> attachment \<Rightarrow> device \<Rightarrow> 32 word \<times> device" where
  "texture format width height a d =
     (let n = genName (gl d) (names d)
      in (n, emit [NewNativeTexture n format width height, TexImage2D format width height,
                   GenerateMipmap, FramebufferTexture2D a n]
               (d\<lparr>names := names d + 1\<rparr>)))"

definition update_locals :: "nat \<Rightarrow> (rtt_locals \<Rightarrow> rtt_locals) \<Rightarrow> device \<Rightarrow> device" where
  "update_locals c f d = d\<lparr>locals_at := (locals_at d)(c := f (locals_at d c))\<rparr>"

definition create_framebuffer :: "nat \<Rightarrow> device \<Rightarrow> device" where
  "create_framebuffer c d =
     (case gen FRAMEBUFFER d of
        (fb, d1) \<Rightarrow> emit [Bind FRAMEBUFFER fb] (update_canvas c (\<lambda>cv. cv\<lparr>fbo := fb\<rparr>) d1))"

definition color_renderbuffer :: "nat \<Rightarrow> int \<Rightarrow> device \<Rightarrow> device" where
  "color_renderbuffer c colorFormat d =
     (let cf = cfg (canvas_at d c)
      in if Color cf = None \<and> ColorFormat cf \<noteq> ZeroTexFormat
         then (case renderbuffer (int32 (Samples cf)) colorFormat (int32 (Dx (Bounds cf)))
                      (int32 (Dy (Bounds cf))) [COLOR_ATTACHMENT0] d of
                 (rb, d1) \<Rightarrow> update_canvas c (\<lambda>cv. cv\<lparr>rbColor := rb\<rparr>) d1)
         else d)"

definition dsCombined :: "RTTConfig \<Rightarrow> bool" where
  "dsCombined cf = (DepthFormat cf = StencilFormat cf \<and> DepthFormat_IsCombined cf)"

definition depth_renderbuffer :: "nat \<Rightarrow> int \<Rightarrow> device \<Rightarrow> device" where
  "depth_renderbuffer c depthFormat d =
     (let cf = cfg (canvas_at d c)
      in if Depth cf = None \<and> DepthFormat cf \<noteq> ZeroDSFormat
         then (case renderbuffer (int32 (Samples cf)) depthFormat (int32 (Dx (Bounds cf)))
                      (int32 (Dy (Bounds cf))) [DEPTH_ATTACHMENT] d of
                 (rb, d1) \<Rightarrow> update_canvas c (\<lambda>cv. cv\<lparr>rbDepth := rb\<rparr>) d1)
         else d)"

definition stencil_renderbuffer :: "nat \<Rightarrow> int \<Rightarrow> device \<Rightarrow> device" where
  "stencil_renderbuffer c stencilFormat d =
     (let cf = cfg (canvas_at d c)
      in if Stencil cf = None \<and> StencilFormat cf \<noteq> ZeroDSFormat
         then (case renderbuffer (int32 (Samples cf)) stencilFormat (int32 (Dx (Bounds cf)))
                      (int32 (Dy (Bounds cf))) [STENCIL_ATTACHMENT] d of
                 (rb, d1) \<Rightarrow> update_canvas c (\<lambda>cv. cv\<lparr>rbStencil := rb\<rparr>) d1)
         else d)"

definition depth_stencil_renderbuffers :: "nat \<Rightarrow> int \<Rightarrow> int \<Rightarrow> device \<Rightarrow> device" where
  "depth_stencil_renderbuffers c depthFormat stencilFormat d =
     (let cf = cfg (canvas_at d c)
      in if Depth cf = None \<and> Stencil cf = None \<and> dsCombined cf
         then (case renderbuffer (int32 (Samples cf)) depthFormat (int32 (Dx (Bounds cf)))
                      (int32 (Dy (Bounds cf))) [DEPTH_ATTACHMENT, STENCIL_ATTACHMENT] d of
                 (rb, d1) \<Rightarrow> update_canvas c (\<lambda>cv. cv\<lparr>rbDepthAndStencil := rb\<rparr>) d1)
         else stencil_renderbuffer c stencilFormat (depth_renderbuffer c depthFormat d))"

definition color_texture :: "nat \<Rightarrow> int \<Rightarrow> device \<Rightarrow> device" where
  "color_texture c colorFormat d =
     (let cf = cfg (canvas_at d c)
      in if Color cf \<noteq> None \<and> ColorFormat cf \<noteq> ZeroTexFormat
         then (case texture colorFormat (int32 (Dx (Bounds cf))) (int32 (Dy (Bounds cf)))
                      COLOR_ATTACHMENT0 d of
                 (n, d1) \<Rightarrow> update_locals c (\<lambda>l. l\<lparr>nTexColor := Some n\<rparr>) d1)
         else d)"

definition depth_texture :: "nat \<Rightarrow> int \<Rightarrow> device \<Rightarrow> device" where
  "depth_texture c depthFormat d =
     (let cf = cfg (canvas_at d c)
      in if \<not> dsCombined cf \<and> Depth cf \<noteq> None \<and> DepthFormat cf \<noteq> ZeroDSFormat
         then (case texture depthFormat (int32 (Dx (Bounds cf))) (int32 (Dy (Bounds cf)))
                      DEPTH_ATTACHMENT d of
                 (n, d1) \<Rightarrow> update_locals c (\<lambda>l. l\<lparr>nTexDepth := Some n\<rparr>) d1)
         else d)"

definition check_framebuffer :: "nat \<Rightarrow> device \<Rightarrow> device" where
  "check_framebuffer c d =
     update_locals c
       (\<lambda>l. l\<lparr>fbError :=
               common_FramebufferStatus d (framebufferStatus (gl d) (cfg (canvas_at d c)))\<rparr>)
       (emit [CheckFramebufferStatus] d)"

text \<open>
  The closure, block after block in the order of the source: the framebuffer, the
  renderbuffers for the attachments without a texture, the textures, the status check,
  the unbinding, the completion signal. It returns false.
\<close>

definition run_RenderToTexture :: "nat \<Rightarrow> int \<Rightarrow> int \<Rightarrow> int \<Rightarrow> device \<Rightarrow> (bool \<times> device) option" where
  "run_RenderToTexture c colorFormat depthFormat stencilFormat d =
     do {
       d1 \<leftarrow> signal_renderComplete
         (emit [Bind TEXTURE 0, Bind RENDERBUFFER 0, Bind FRAMEBUFFER 0]
           (check_framebuffer c
             (depth_texture c depthFormat
               (color_texture c colorFormat
                 (depth_stencil_renderbuffers c depthFormat stencilFormat
                   (color_renderbuffer c colorFormat
                     (create_framebuffer c d)))))));
       Some (False, d1)
     }"

text \<open>
  Executing an operation gives the boolean the closure returns and the new state, or
  \<open>None\<close> when the closure does not return: a busy-wait that never ends, a panic, a send
  that blocks for ever. The first argument bounds the depth to which closures run
  closures: the closure of \<open>hookedRender\<close> runs queued operations in its loop
  \<open>for i := 0; i < len(r.renderExec); i++\<close>, and these may be closures of \<open>hookedRender\<close>
  again; \<open>None\<close> also when that bound is reached. The closure of \<open>hookedRender\<close> frees the
  pending resources, calls \<open>pre\<close>, runs its loop, flushes, waits for the queries, calls
  \<open>post\<close> and then, when a canvas is current, signals completion and returns false, and
  otherwise ticks the clock, signals completion and returns true. (\<open>tag.Gfxdebug\<close> is
  false outside debug builds; \<open>debugRender\<close> is left out.)
\<close>

fun exec :: "nat \<Rightarrow> op \<Rightarrow> device \<Rightarrow> (bool \<times> device) option"
  and drain :: "nat \<Rightarrow> nat \<Rightarrow> device \<Rightarrow> device option" where
  "exec 0 f d = None"
| "exec (Suc k) (op_Clear rect bg pre post) d = run_Clear rect bg pre post d"
| "exec (Suc k) (op_ClearDepth rect depth pre post) d = run_ClearDepth rect depth pre post d"
| "exec (Suc k) (op_ClearStencil rect stencil pre post) d =
     run_ClearStencil rect stencil pre post d"
| "exec (Suc k) (op_QueryWait pre post) d = run_QueryWait pre post d"
| "exec (Suc k) op_yield d = run_yield d"
| "exec (Suc k) (op_RenderToTexture c colorFormat depthFormat stencilFormat) d =
     run_RenderToTexture c colorFormat depthFormat stencilFormat d"
| "exec (Suc k) (op_Render pre post) d =
     do {
       d1 \<leftarrow> call_hook pre (rsrcManager_freePending d);
       d2 \<leftarrow> drain k 0 d1;
       (i, gosched, d3) \<leftarrow> queryWait (emit [Flush] d2);
       d4 \<leftarrow> call_hook post d3;
       if rttCanvas d4 \<noteq> None
       then do {
         d5 \<leftarrow> signal_renderComplete d4;
         Some (False, d5)
       }
       else do {
         d5 \<leftarrow> signal_renderComplete (d4\<lparr>clock := clock d4 + 1\<rparr>);
         Some (True, d5)
       }
     }"
| "drain 0 i d = None"
| "drain (Suc k) i d =
     (if i < length (renderExec d)
      then do {
        (b, d1) \<leftarrow> exec k (hd (renderExec d)) (d\<lparr>renderExec := tl (renderExec d)\<rparr>);
        drain k (i + 1) d1
      }
      else Some d)"

subsection \<open>The device thread and the callers\<close>

text \<open>
  A send on \<open>renderExec\<close> appends the closure. (The channel has room for 1024 closures; a
  sender that finds it full waits for the device thread, which the model leaves out.)
\<close>

definition send :: "op \<Rightarrow> device \<Rightarrow> device" where
  "send f d = d\<lparr>renderExec := renderExec d @ [f]\<rparr>"

text \<open>
  The device thread is the loop of \<open>glfwWindow.run\<close> (unnamed/part_000): its case
  \<open>fn := <-exec\<close> receives one closure, runs it and swaps the buffers when it returns
  true (and then takes a waiting \<open>waitNextFrame\<close> request, which the model leaves out).
  With nothing to receive the thread blocks.
\<close>

definition run_fn :: "nat \<Rightarrow> device \<Rightarrow> device option" where
  "run_fn k d =
     (case renderExec d of
        [] \<Rightarrow> None
      | fn # q \<Rightarrow>
          do {
            (renderedFrame, d1) \<leftarrow> exec k fn (d\<lparr>renderExec := q\<rparr>);
            Some (if renderedFrame then emit [SwapBuffers] d1 else d1)
          })"

text \<open>
  A caller blocked in \<open><-r.renderComplete\<close>: the device thread runs closure after closure
  until a signal is in the channel, which the caller then receives. The first argument
  bounds the number of closures run while waiting.
\<close>

fun await_renderComplete :: "nat \<Rightarrow> device \<Rightarrow> device option" where
  "await_renderComplete 0 d = None"
| "await_renderComplete (Suc k) d =
     (if renderComplete d > 0 then Some (d\<lparr>renderComplete := renderComplete d - 1\<rparr>)
      else do {
        d1 \<leftarrow> run_fn k d;
        await_renderComplete k d1
      })"

text \<open>The hooked methods of the device, seen from the caller.\<close>

definition hookedClear :: "Rectangle \<Rightarrow> Color \<Rightarrow> hook \<Rightarrow> hook \<Rightarrow> device \<Rightarrow> device" where
  "hookedClear rect bg pre post d =
     (if Empty rect then d else send (op_Clear rect bg pre post) d)"

definition hookedClearDepth :: "Rectangle \<Rightarrow> real \<Rightarrow> hook \<Rightarrow> hook \<Rightarrow> device \<Rightarrow> device" where
  "hookedClearDepth rect depth pre post d =
     (if Empty rect then d else send (op_ClearDepth rect depth pre post) d)"

definition hookedClearStencil :: "Rectangle \<Rightarrow> int \<Rightarrow> hook \<Rightarrow> hook \<Rightarrow> device \<Rightarrow> device" where
  "hookedClearStencil rect stencil pre post d =
     (if Empty rect then d else send (op_ClearStencil rect stencil pre post) d)"

definition hookedQueryWait :: "nat \<Rightarrow> hook \<Rightarrow> hook \<Rightarrow> device \<Rightarrow> device option" where
  "hookedQueryWait k pre post d = await_renderComplete k (send (op_QueryWait pre post) d)"

definition hookedRender :: "nat \<Rightarrow> hook \<Rightarrow> hook \<Rightarrow> device \<Rightarrow> device option" where
  "hookedRender k pre post d = await_renderComplete k (send (op_Render pre post) d)"

text \<open>The methods of the device that implement \<open>gfx.Canvas\<close>.\<close>

definition device_Clear :: "Rectangle \<Rightarrow> Color \<Rightarrow> device \<Rightarrow> device" where
  "device_Clear rect bg d = hookedClear rect bg hook_nil hook_nil d"

definition device_ClearDepth :: "Rectangle \<Rightarrow> real \<Rightarrow> device \<Rightarrow> device" where
  "device_ClearDepth rect depth d = hookedClearDepth rect depth hook_nil hook_nil d"

definition device_ClearStencil :: "Rectangle \<Rightarrow> int \<Rightarrow> device \<Rightarrow> device" where
  "device_ClearStencil rect stencil d = hookedClearStencil rect stencil hook_nil hook_nil d"

definition device_QueryWait :: "nat \<Rightarrow> device \<Rightarrow> device option" where
  "device_QueryWait k d = hookedQueryWait k hook_nil hook_nil d"

definition device_Render :: "nat \<Rightarrow> device \<Rightarrow> device option" where
  "device_Render k d = hookedRender k hook_nil hook_nil d"

text \<open>
  The methods of \<open>rttCanvas\<close>, for the canvas at pointer \<open>c\<close>. \<open>noop\<close> tells whether the
  count of live textures is zero (it takes a read lock, which the model leaves out; on
  that branch the source returns without releasing it). Only \<open>Clear\<close> asks \<open>noop\<close>.
  \<open>Render\<close> passes nil as \<open>pre\<close> and its function literal as \<open>post\<close>. (\<open>Draw\<close> and
  \<open>Download\<close> hand on to \<open>hookedDraw\<close> and \<open>hookedDownload\<close>, without asking \<open>noop\<close>
  either.)
\<close>

definition noop :: "nat \<Rightarrow> device \<Rightarrow> bool" where
  "noop c d = (textureCount (canvas_at d c) = 0)"

definition rttCanvas_Clear :: "nat \<Rightarrow> Rectangle \<Rightarrow> Color \<Rightarrow> device \<Rightarrow> device" where
  "rttCanvas_Clear c rect bg d =
     (if noop c d then d else hookedClear rect bg (hook_rttBegin c) (hook_rttEnd c) d)"

definition rttCanvas_ClearDepth :: "nat \<Rightarrow> Rectangle \<Rightarrow> real \<Rightarrow> device \<Rightarrow> device" where
  "rttCanvas_ClearDepth c rect depth d =
     hookedClearDepth rect depth (hook_rttBegin c) (hook_rttEnd c) d"

definition rttCanvas_ClearStencil :: "nat \<Rightarrow> Rectangle \<Rightarrow> int \<Rightarrow> device \<Rightarrow> device" where
  "rttCanvas_ClearStencil c rect stencil d =
     hookedClearStencil rect stencil (hook_rttBegin c) (hook_rttEnd c) d"

definition rttCanvas_QueryWait :: "nat \<Rightarrow> nat \<Rightarrow> device \<Rightarrow> device option" where
  "rttCanvas_QueryWait k c d = hookedQueryWait k (hook_rttBegin c) (hook_rttEnd c) d"

definition rttCanvas_Render :: "nat \<Rightarrow> nat \<Rightarrow> device \<Rightarrow> device option" where
  "rttCanvas_Render k c d = hookedRender k hook_nil (hook_Render_post c) d"

text \<open>
  Modelled from the spec: \<open>finalizeTexture\<close>, which is defined in a file that is not among
  the sources. In the specification a release appends the handle to the Resource
  Manager's list of its kind.
\<close>

definition finalizeTexture :: "32 word \<Rightarrow> device \<Rightarrow> device" where
  "finalizeTexture n d = d\<lparr>rsrc := (rsrc d)\<lparr>textures := textures (rsrc d) @ [n]\<rparr>\<rparr>"

text \<open>
  \<open>freeTexture\<close>, which the finalizer of a canvas texture calls: nothing when the count is
  zero already; otherwise the count goes down by one, and when it reaches zero the three
  textures of the configuration are finalized and the framebuffer and the renderbuffers
  with a name other than 0 are appended to the lists of the resource manager. The type
  assertion on \<open>NativeTexture\<close> panics (\<open>None\<close>) when the field is nil.
\<close>

definition freeTexture_finalize :: "nat option \<Rightarrow> device \<Rightarrow> device option" where
  "freeTexture_finalize t d =
     (case t of
        None \<Rightarrow> Some d
      | Some p \<Rightarrow>
          (case NativeTexture (texture_at d p) of
             None \<Rightarrow> None
           | Some n \<Rightarrow> Some (finalizeTexture n d)))"

definition freeRb :: "32 word \<Rightarrow> device \<Rightarrow> device" where
  "freeRb n d =
     (if n = 0 then d
      else d\<lparr>rsrc := (rsrc d)\<lparr>renderbuffers := renderbuffers (rsrc d) @ [n]\<rparr>\<rparr>)"

definition freeTexture :: "nat \<Rightarrow> device \<Rightarrow> device option" where
  "freeTexture c d =
     (let cv = canvas_at d c
      in if textureCount cv = 0 then Some d
         else
           (let d1 = update_canvas c (\<lambda>v. v\<lparr>textureCount := textureCount v - 1\<rparr>) d
            in if textureCount cv - 1 = 0
               then do {
                 d2 \<leftarrow> freeTexture_finalize (Color (cfg cv)) d1;
                 d3 \<leftarrow> freeTexture_finalize (Depth (cfg cv)) d2;
                 d4 \<leftarrow> freeTexture_finalize (Stencil (cfg cv)) d3;
                 Some (freeRb (rbDepthAndStencil cv) (freeRb (rbStencil cv) (freeRb (rbDepth cv)
                   (freeRb (rbColor cv)
                     (if fbo cv \<noteq> 0
                      then d4\<lparr>rsrc := (rsrc d4)\<lparr>fbos := fbos (rsrc d4) @ [fbo cv]\<rparr>\<rparr>
                      else d4)))))
               }
               else Some d1))"

text \<open>
  \<open>RenderToTexture\<close>. The result is a panic, nil (\<open>Inr None\<close>) or the pointer of the new
  canvas, with the new state; \<open>None\<close> when the wait for the closure does not return. The
  two-valued map index \<open>v, ok := m[k]\<close> gives the zero value and false for a missing key.
  \<open>finishTexture\<close> counts a texture that is not nil and got a native texture, and marks it
  loaded (the finalizer it registers calls \<open>freeTexture\<close>; \<open>t.ClearData()\<close>, defined
  outside the sources, drops data that the device does not read). The last three
  statements clear the rectangle \<open>image.Rect(0, 0, 0, 0)\<close>.
\<close>

definition lookup :: "('k \<Rightarrow> int option) \<Rightarrow> 'k \<Rightarrow> int \<times> bool" where
  "lookup m k = (case m k of None \<Rightarrow> (0, False) | Some v \<Rightarrow> (v, True))"

definition finishTexture :: "nat \<Rightarrow> nat option \<Rightarrow> 32 word option \<Rightarrow> device \<Rightarrow> device" where
  "finishTexture c t native d =
     (case t of
        None \<Rightarrow> d
      | Some p \<Rightarrow>
          (case native of
             None \<Rightarrow> d
           | Some n \<Rightarrow>
               (update_canvas c (\<lambda>v. v\<lparr>textureCount := textureCount v + 1\<rparr>) d)
                 \<lparr>texture_at := (texture_at d)
                    (p := (texture_at d p)
                       \<lparr>Loaded := True, NativeTexture := Some n,
                        Bounds_tex := Bounds (cfg (canvas_at d c))\<rparr>)\<rparr>))"

definition new_canvas :: "RTTConfig \<Rightarrow> rttCanvas" where
  "new_canvas cf =
     \<lparr>cfg = cf, VBounds_canvas = Bounds cf, fbo = 0, rbColor = 0, rbDepth = 0, rbStencil = 0,
      rbDepthAndStencil = 0, textureCount = 0\<rparr>"

definition new_locals :: rtt_locals where
  "new_locals = \<lparr>nTexColor = None, nTexDepth = None, nTexStencil = None, fbError = None\<rparr>"

definition finishTextures :: "nat \<Rightarrow> RTTConfig \<Rightarrow> device \<Rightarrow> device" where
  "finishTextures c cf d =
     finishTexture c (Stencil cf) (nTexStencil (locals_at d c))
       (finishTexture c (Depth cf) (nTexDepth (locals_at d c))
         (finishTexture c (Color cf) (nTexColor (locals_at d c)) d))"

definition RenderToTexture_finish :: "nat \<Rightarrow> RTTConfig \<Rightarrow> device \<Rightarrow> (panic + nat option) \<times> device" where
  "RenderToTexture_finish c cf d =
     (case fbError (locals_at d c) of
        Some e \<Rightarrow>
          if e = FramebufferUnsupported then (Inr None, d) else (Inl (Panic_error e), d)
      | None \<Rightarrow>
          (Inr (Some c),
           rttCanvas_ClearStencil c (Rect 0 0 0 0) 0
             (rttCanvas_ClearDepth c (Rect 0 0 0 0) 1
               (rttCanvas_Clear c (Rect 0 0 0 0) (MkColor 0 0 0 1)
                 (finishTextures c cf d)))))"

definition RenderToTexture ::
  "nat \<Rightarrow> RTTConfig \<Rightarrow> device \<Rightarrow> ((panic + nat option) \<times> device) option" where
  "RenderToTexture k cf d =
     (if \<not> Valid cf then Some (Inl Panic_invalid_configuration, d)
      else if \<not> glArbFramebufferObject d then Some (Inr None, d)
      else
        (case lookup (rttTexFormats d) (ColorFormat cf) of
           (colorFormat, ok_color) \<Rightarrow>
             if ColorFormat cf \<noteq> ZeroTexFormat \<and> \<not> ok_color then Some (Inr None, d)
             else
               (case lookup (rttDSFormats d) (DepthFormat cf) of
                  (depthFormat, ok_depth) \<Rightarrow>
                    if DepthFormat cf \<noteq> ZeroDSFormat \<and> \<not> ok_depth then Some (Inr None, d)
                    else
                      (case lookup (rttDSFormats d) (StencilFormat cf) of
                         (stencilFormat, ok_stencil) \<Rightarrow>
                           if StencilFormat cf \<noteq> ZeroDSFormat \<and> \<not> ok_stencil
                           then Some (Inr None, d)
                           else
                             (let c = next_pointer d;
                                  d1 = d\<lparr>next_pointer := c + 1,
                                         canvas_at := (canvas_at d)(c := new_canvas cf),
                                         locals_at := (locals_at d)(c := new_locals)\<rparr>
                              in do {
                                   d2 \<leftarrow> await_renderComplete k
                                     (send (op_RenderToTexture c colorFormat depthFormat
                                        stencilFormat) d1);
                                   Some (RenderToTexture_finish c cf d2)
                                 })))))"

text \<open>Reading a trace: the buffers cleared by \<open>gl.Clear\<close> calls, in order.\<close>

fun clear_calls :: "event list \<Rightarrow> clear_bit list" where
  "clear_calls [] = []"
| "clear_calls (e # es) = (case e of Clear b \<Rightarrow> b # clear_calls es | _ \<Rightarrow> clear_calls es)"

subsection \<open>Vocabulary for the statements about RenderToTexture\<close>






definition same_driver :: "nat \<Rightarrow> device \<Rightarrow> device \<Rightarrow> bool" where
  "same_driver c d d' =
     (renderExec d' = renderExec d \<and> renderComplete d' = renderComplete d \<and> gl d' = gl d
      \<and> common_FramebufferStatus d' = common_FramebufferStatus d
      \<and> cfg (canvas_at d' c) = cfg (canvas_at d c))"

text \<open>What is queued on \<open>renderExec\<close> and which buffers have been cleared so far.\<close>

definition queued_and_cleared :: "device \<Rightarrow> op list \<times> clear_bit list" where
  "queued_and_cleared d = (renderExec d, clear_calls (trace d))"

section \<open>Property reconciliation of the window (unnamed/part_000, package window)\<close>

text \<open>
  A float64 as far as \<open>useProps\<close> looks at it: it compares cursor coordinates with
  \<open>!=\<close>, which holds whenever one side is NaN, and stores \<open>math.Inf(-1)\<close>.
\<close>

datatype float64 = Finite real | PosInf | NegInf | NaN




















section \<open>Pre-draw validation (unnamed/part_001, package util)\<close>

text \<open>
  The named errors of the package, and the parts of \<open>gfx.Shader\<close>, \<open>gfx.Mesh\<close> and
  \<open>gfx.Object\<close> that \<open>PreDraw\<close> reads (\<open>gfx.Texture\<close> is above). \<open>HasChanged\<close> carries the
  result of the method \<open>m.HasChanged()\<close>, which is defined outside the sources. An object
  holds pointers to its state, its shader, its meshes and its textures; the state and
  the shader may be nil.
\<close>

datatype draw_error =
  ErrNilState | ErrNilShader | ErrNilSource | ErrNoVertices | ErrNoMeshes | ErrShaderError

record Shader =
  Loaded_shader :: bool
  Error :: "8 word list"

record Mesh =
  Loaded_mesh :: bool
  HasChanged :: bool
  Vertices :: "(real \<times> real \<times> real) list"

record Object =
  State :: "nat option"
  Shader :: "nat option"
  Meshes :: "nat list"
  Textures :: "nat list"

text \<open>
  The memory the pointers lead into, and the three loading methods of the \<open>gfx.Device\<close>
  interface that \<open>PreDraw\<close> calls. \<open>PreDraw\<close> waits on a channel until the device has
  finished a load; the model takes the device to answer, and a load to change the object
  that is loaded and nothing else.
\<close>

record memory =
  shader_of :: "nat \<Rightarrow> Shader"
  mesh_of :: "nat \<Rightarrow> Mesh"
  texture_of :: "nat \<Rightarrow> Texture"

record loader =
  LoadShader :: "Shader \<Rightarrow> Shader"
  LoadMesh :: "Mesh \<Rightarrow> Mesh"
  LoadTexture :: "Texture \<Rightarrow> Texture"

text \<open>
  The loop over the meshes: a mesh that is loaded and has not changed is skipped; a mesh
  without vertices ends the call with \<open>ErrNoVertices\<close>; any other mesh is loaded. The loop
  over the textures: a loaded texture is skipped; a texture with a nil source ends the
  call with \<open>ErrNilSource\<close>; any other texture is loaded.
\<close>

fun load_meshes :: "loader \<Rightarrow> nat list \<Rightarrow> memory \<Rightarrow> draw_error option \<times> memory" where
  "load_meshes dev [] h = (None, h)"
| "load_meshes dev (m # ms) h =
     (if Loaded_mesh (mesh_of h m) \<and> \<not> HasChanged (mesh_of h m) then load_meshes dev ms h
      else if length (Vertices (mesh_of h m)) = 0 then (Some ErrNoVertices, h)
      else load_meshes dev ms (h\<lparr>mesh_of := (mesh_of h)(m := LoadMesh dev (mesh_of h m))\<rparr>))"

fun load_textures :: "loader \<Rightarrow> nat list \<Rightarrow> memory \<Rightarrow> draw_error option \<times> memory" where
  "load_textures dev [] h = (None, h)"
| "load_textures dev (t # ts) h =
     (if Loaded (texture_of h t) then load_textures dev ts h
      else if Source (texture_of h t) = None then (Some ErrNilSource, h)
      else load_textures dev ts
             (h\<lparr>texture_of := (texture_of h)(t := LoadTexture dev (texture_of h t))\<rparr>))"

definition load_shader :: "loader \<Rightarrow> nat \<Rightarrow> memory \<Rightarrow> memory" where
  "load_shader dev s h =
     (if Loaded_shader (shader_of h s) then h
      else h\<lparr>shader_of := (shader_of h)(s := LoadShader dev (shader_of h s))\<rparr>)"

text \<open>
  \<open>PreDraw\<close> returns \<open>draw\<close> and \<open>err\<close>, here with the memory after the loads. (The call
  \<open>o.Bounds()\<close> computes a bounding box and changes nothing that \<open>PreDraw\<close> reads.)
\<close>

definition PreDraw_loads ::
  "loader \<Rightarrow> Object \<Rightarrow> nat \<Rightarrow> memory \<Rightarrow> (bool \<times> draw_error option) \<times> memory" where
  "PreDraw_loads dev ob s h =
     (case load_meshes dev (Meshes ob) (load_shader dev s h) of
        (Some e, h1) \<Rightarrow> ((False, Some e), h1)
      | (None, h1) \<Rightarrow>
          (case load_textures dev (Textures ob) h1 of
             (Some e, h2) \<Rightarrow> ((False, Some e), h2)
           | (None, h2) \<Rightarrow>
               if length (Error (shader_of h2 s)) > 0 then ((False, Some ErrShaderError), h2)
               else ((True, None), h2)))"

definition PreDraw ::
  "loader \<Rightarrow> Rectangle \<Rightarrow> Object \<Rightarrow> memory \<Rightarrow> (bool \<times> draw_error option) \<times> memory" where
  "PreDraw dev rect ob h =
     (if Empty rect then ((False, None), h)
      else
        (case State ob of
           None \<Rightarrow> ((False, Some ErrNilState), h)
         | Some st \<Rightarrow>
             (case Shader ob of
                None \<Rightarrow> ((False, Some ErrNilShader), h)
              | Some s \<Rightarrow>
                  if length (Error (shader_of h s)) > 0 then ((False, Some ErrShaderError), h)
                  else if length (Meshes ob) = 0 then ((False, Some ErrNoMeshes), h)
                  else PreDraw_loads dev ob s h)))"

text \<open>
  A mesh that the loop does not skip and that has no vertices; a texture that the loop
  does not skip and that has no source.
\<close>

definition unloadable_mesh :: "Mesh \<Rightarrow> bool" where
  "unloadable_mesh m = ((HasChanged m \<or> \<not> Loaded_mesh m) \<and> Vertices m = [])"

definition unloadable_texture :: "Texture \<Rightarrow> bool" where
  "unloadable_texture t = (Source t = None \<and> \<not> Loaded t)"

text \<open>
  The shader as \<open>PreDraw\<close> leaves it, loaded by the device unless it was loaded already,
  and the answer of the last check, made on that shader.
\<close>

definition shader_after_load :: "loader \<Rightarrow> Shader \<Rightarrow> Shader" where
  "shader_after_load dev sh = (if Loaded_shader sh then sh else LoadShader dev sh)"

definition last_check :: "Shader \<Rightarrow> bool \<times> draw_error option" where
  "last_check sh = (if Error sh = [] then (True, None) else (False, Some ErrShaderError))"

section \<open>Concrete inputs\<close>

text \<open>
  Three resource managers: one with a single pending framebuffer, one with every kind,
  and one with \<open>2^31\<close> pending framebuffers, named 1 to \<open>2^31\<close>.
\<close>

definition rsrc_one_fbo :: rsrcManager where
  "rsrc_one_fbo = \<lparr>meshes = [], shaders = [], textures = [], fbos = [7], renderbuffers = []\<rparr>"

definition rsrc_many_fbos :: rsrcManager where
  "rsrc_many_fbos =
     \<lparr>meshes = [], shaders = [], textures = [], fbos = map word_of_nat [1..<2 ^ 31 + 1],
      renderbuffers = []\<rparr>"

definition rsrc_all_kinds :: rsrcManager where
  "rsrc_all_kinds =
     \<lparr>meshes = [1, 2], shaders = [3], textures = [4], fbos = [5, 6], renderbuffers = [7]\<rparr>"

text \<open>
  An idle device on a driver with both extensions, the format tables that \<open>newDevice\<close>
  fills in, no canvas and nothing queued or pending; a driver on which every query
  result is available at once; and \<open>FramebufferStatus\<close> reading the OpenGL status codes
  (36053 complete, 36061 unsupported).
\<close>

definition driver0 :: driver where
  "driver0 =
     \<lparr>queryAvailable = (\<lambda>t q. True), queryResult = (\<lambda>q. 0),
      genName = (\<lambda>k. word_of_nat (k + 1)), framebufferStatus = (\<lambda>c. 36053)\<rparr>"

definition cfg0 :: RTTConfig where
  "cfg0 =
     \<lparr>Bounds = Rect 0 0 256 256, ColorFormat = RGBA, DepthFormat = Depth24,
      StencilFormat = ZeroDSFormat, Samples = 0, Color = None, Depth = None, Stencil = None,
      Valid = True, DepthFormat_IsCombined = False\<rparr>"

definition device0 :: device where
  "device0 =
     \<lparr>VBounds = Rect 0 0 640 480, clock = 0,
      rsrc = \<lparr>meshes = [], shaders = [], textures = [], fbos = [], renderbuffers = []\<rparr>,
      renderExec = [], glArbFramebufferObject = True, glArbOcclusionQuery = True,
      pending = [],
      rttTexFormats = map_of [(RGB, 32849), (RGBA, 32856)],
      rttDSFormats =
        map_of [(Depth16, 33189), (Depth24, 33190), (Depth32, 33191),
                (Depth24AndStencil8, 35056)],
      rttCanvas = None, renderComplete = 0,
      common_FramebufferStatus =
        (\<lambda>s. if s = 36053 then None
             else if s = 36061 then Some FramebufferUnsupported
             else Some (FramebufferError (nat s))),
      canvas_at =
        (\<lambda>p. \<lparr>cfg = cfg0, VBounds_canvas = Rect 0 0 256 256, fbo = 0, rbColor = 0,
              rbDepth = 0, rbStencil = 0, rbDepthAndStencil = 0, textureCount = 0\<rparr>),
      texture_at =
        (\<lambda>p. \<lparr>Loaded = False, Source = None, MinFilter_Mipmapped = False,
              NativeTexture = None, Bounds_tex = Rect 0 0 0 0\<rparr>),
      sampleCount = (\<lambda>p. 0),
      locals_at = (\<lambda>p. \<lparr>nTexColor = None, nTexDepth = None, nTexStencil = None,
                          fbError = None\<rparr>),
      next_pointer = 0, gl = driver0, polls = 0, names = 0, trace = []\<rparr>"


text \<open>
  A valid configuration with a color texture (the texture at pointer 0) and a depth
  renderbuffer; the device after \<open>RenderToTexture\<close> has created a canvas for it on the
  idle device (the canvas is at pointer 0); and that device after the texture has been
  finalized, which brings the canvas's count of live textures to zero.
\<close>

definition cfg_tex :: RTTConfig where
  "cfg_tex = cfg0\<lparr>Color := Some 0\<rparr>"

definition device_with_canvas :: "device option" where
  "device_with_canvas = map_option snd (RenderToTexture 2 cfg_tex device0)"

definition device_released :: "device option" where
  "device_released = Option.bind device_with_canvas (freeTexture 0)"

text \<open>
  The device at the moment its thread starts a closure of \<open>hookedRender\<close> while two
  clears, sent by another goroutine, are queued behind it.
\<close>

definition device_two_queued :: device where
  "device_two_queued =
     device0\<lparr>renderExec :=
       [op_Clear (Rect 0 0 100 100) (MkColor 1 0 0 1) hook_nil hook_nil,
        op_ClearDepth (Rect 0 0 100 100) 1 hook_nil hook_nil]\<rparr>"

text \<open>
  An invalid configuration; the idle device with one clear queued; and devices whose
  driver lacks the framebuffer-object extension, reports the framebuffer unsupported
  (36061), or reports an incomplete attachment (36054).
\<close>

definition cfg_invalid :: RTTConfig where
  "cfg_invalid = cfg0\<lparr>Valid := False\<rparr>"


definition device_without_fbo :: device where
  "device_without_fbo = device0\<lparr>glArbFramebufferObject := False\<rparr>"






text \<open>
  A device whose loads mark the object loaded; a memory with a loaded shader without
  errors (pointer 0), a shader with an error (1), a mesh that was loaded and whose data
  has been dropped since (0), a new mesh without vertices (1), a loaded texture whose
  source has been dropped (0) and a new texture without a source (1); and objects over
  that memory.
\<close>

definition loader0 :: loader where
  "loader0 =
     \<lparr>LoadShader = (\<lambda>s. s\<lparr>Loaded_shader := True\<rparr>),
      LoadMesh = (\<lambda>m. m\<lparr>Loaded_mesh := True, HasChanged := False\<rparr>),
      LoadTexture = (\<lambda>t. t\<lparr>Loaded := True\<rparr>)\<rparr>"

definition memory0 :: memory where
  "memory0 =
     \<lparr>shader_of = (\<lambda>p. \<lparr>Loaded_shader = True, Error = (if p = 0 then [] else [101])\<rparr>),
      mesh_of = (\<lambda>p. \<lparr>Loaded_mesh = (p = 0), HasChanged = False, Vertices = []\<rparr>),
      texture_of =
        (\<lambda>p. \<lparr>Loaded = (p = 0), Source = None, MinFilter_Mipmapped = False,
              NativeTexture = None, Bounds_tex = Rect 0 0 0 0\<rparr>)\<rparr>"

definition object0 :: Object where
  "object0 = \<lparr>State = Some 0, Shader = Some 0, Meshes = [0], Textures = [0]\<rparr>"


text \<open>
  A device on which compiling a shader fails; the memory above with a shader (pointer 2),
  a mesh with one vertex (2) and a texture with a source (2) that are not loaded yet;
  and an object with these next to the loaded mesh and texture.
\<close>

definition loader1 :: loader where
  "loader1 = loader0\<lparr>LoadShader := (\<lambda>s. s\<lparr>Loaded_shader := True, Error := [101]\<rparr>)\<rparr>"

definition memory1 :: memory where
  "memory1 =
     \<lparr>shader_of = (shader_of memory0)(2 := \<lparr>Loaded_shader = False, Error = []\<rparr>),
      mesh_of = (mesh_of memory0)
        (2 := \<lparr>Loaded_mesh = False, HasChanged = False, Vertices = [(0, 0, 0)]\<rparr>),
      texture_of = (texture_of memory0)
        (2 := \<lparr>Loaded = False, Source = Some 9, MinFilter_Mipmapped = False,
               NativeTexture = None, Bounds_tex = Rect 0 0 0 0\<rparr>)\<rparr>"

definition object1 :: Object where
  "object1 = \<lparr>State = Some 0, Shader = Some 2, Meshes = [0, 2], Textures = [0, 2]\<rparr>"

section \<open>The reclamation pass\<close>

lemma int32_small: "n < 2 ^ 31 \<Longrightarrow> int32 (int n) = int n"
proof -
  assume "n < 2 ^ 31"
  then have lt: "int n < 2 ^ 31"
    by (metis of_nat_less_iff of_nat_numeral of_nat_power)
  have "sint (word_of_int (int n) :: 32 word) = signed_take_bit (LENGTH(32) - 1) (int n)"
    by (rule sint_sbintrunc')
  also have "\<dots> = int n"
    using lt by (intro signed_take_bit_int_eq_self) simp_all
  finally show ?thesis unfolding int32_def .
qed

lemma deletions_append: "deletions (xs @ ys) = deletions xs @ deletions ys"
  by (induction xs) (simp_all split: option.splits)

lemma deletions_map_FreeMesh: "deletions (map FreeMesh ms) = map MeshFreed ms"
  by (induction ms) (simp_all add: deletion_of_def)

lemma deletions_map_FreeShader: "deletions (map FreeShader ss) = map ShaderFreed ss"
  by (induction ss) (simp_all add: deletion_of_def)

lemma deletions_locked_FreeShader:
  "deletions_locked True (map FreeShader ss @ es) = deletions_locked True es"
  by (induction ss) (simp_all add: deletion_of_def outside_freeTextures_def)

lemma deletions_locked_FreeMesh:
  "deletions_locked True (map FreeMesh ms @ es) = deletions_locked True es"
  by (induction ms) (simp_all add: deletion_of_def outside_freeTextures_def)

lemma freePending_state:
  "fst (freePending r) =
     r\<lparr>meshes := [], shaders := [], textures := [], fbos := [], renderbuffers := []\<rparr>"
  by (simp add: freePending_def freeTextures_def freeFBOs_def freeRenderbuffers_def Let_def)

lemma freePending_trace:
  "snd (freePending r) =
     [RsrcLock] @ map FreeMesh (meshes r) @ map FreeShader (shaders r) @ [RsrcUnlock]
     @ snd (freeTextures r) @ snd (freeFBOs r) @ snd (freeRenderbuffers r)"
  by (simp add: freePending_def freeTextures_def freeFBOs_def freeRenderbuffers_def Let_def)

lemma deletions_freeTextures:
  "length (textures r) < 2 ^ 31 \<Longrightarrow>
   deletions (snd (freeTextures r)) = batch TEXTURE (textures r)"
  by (simp add: freeTextures_def batch_def deletion_of_def int32_small)

lemma deletions_freeFBOs:
  "length (fbos r) < 2 ^ 31 \<Longrightarrow> deletions (snd (freeFBOs r)) = batch FRAMEBUFFER (fbos r)"
  by (simp add: freeFBOs_def batch_def deletion_of_def int32_small)

lemma deletions_freeRenderbuffers:
  "length (renderbuffers r) < 2 ^ 31 \<Longrightarrow>
   deletions (snd (freeRenderbuffers r)) = batch RENDERBUFFER (renderbuffers r)"
  by (simp add: freeRenderbuffers_def batch_def deletion_of_def int32_small)

lemma deletions_locked_freePending: "deletions_locked False (snd (freePending r))"
  by (simp add: freePending_trace deletions_locked_FreeMesh deletions_locked_FreeShader
      freeTextures_def freeFBOs_def freeRenderbuffers_def deletion_of_def outside_freeTextures_def)

text \<open>
  C7, as stated, asks that the native deletions come after the unlock, and that each
  kind of numeric handle gets one batched call that covers all its pending handles. With
  one pending framebuffer, \<open>freeFBOs\<close> deletes it between its lock and its unlock, and the
  kinds with nothing pending get no call. With \<open>2^31\<close> pending framebuffers the count
  that is passed is \<open>int32(2^31) = -2^31\<close>, so the one call covers none of them.
\<close>

theorem freePending_deletes_under_lock:
  "\<not> deletions_unlocked False (snd (freePending rsrc_one_fbo))
   \<and> deletions (snd (freePending rsrc_one_fbo)) = [Batch FRAMEBUFFER [7]]
   \<and> length (fbos rsrc_many_fbos) = 2 ^ 31
   \<and> deletions (snd (freePending rsrc_many_fbos)) = [Batch FRAMEBUFFER []]"
  by (simp add: rsrc_one_fbo_def rsrc_many_fbos_def freePending_def freeTextures_def
      freeFBOs_def freeRenderbuffers_def deletion_of_def Let_def int32_def)

text \<open>
  C7, amended. One pass of \<open>freePending\<close> leaves the five lists empty and changes nothing
  else. What it does to the outside is exactly this, in this order: it locks, frees every
  pending mesh and then every pending shader by a call each, and unlocks; the texture
  step, which is modelled from the specification, locks and unlocks and then makes its
  batched deletion and a flush; the framebuffer step locks, makes its batched deletion
  and a flush, and only then unlocks; the renderbuffer step does the same. A batched
  deletion is one call that is handed the count \<open>int32(N)\<close> and the \<open>N\<close> pending handles,
  and is made only when \<open>N \<ge> 1\<close>. So when fewer than \<open>2^31\<close> handles of each kind are
  pending, the deletions are: the meshes, the shaders, and for each kind with pending
  handles exactly one batch that covers all of them. Every deletion of a mesh, shader,
  framebuffer or renderbuffer is made while the mutex is held.
\<close>

theorem freePending_pass:
  "fst (freePending r) =
       r\<lparr>meshes := [], shaders := [], textures := [], fbos := [], renderbuffers := []\<rparr>
   \<and> snd (freePending r) =
       [RsrcLock] @ map FreeMesh (meshes r) @ map FreeShader (shaders r) @ [RsrcUnlock]
       @ [RsrcLock, RsrcUnlock]
       @ (if textures r = [] then []
          else [Delete TEXTURE (int32 (int (length (textures r)))) (textures r), Flush])
       @ [RsrcLock]
       @ (if fbos r = [] then []
          else [Delete FRAMEBUFFER (int32 (int (length (fbos r)))) (fbos r), Flush])
       @ [RsrcUnlock]
       @ [RsrcLock]
       @ (if renderbuffers r = [] then []
          else [Delete RENDERBUFFER (int32 (int (length (renderbuffers r)))) (renderbuffers r),
                Flush])
       @ [RsrcUnlock]
   \<and> (length (textures r) < 2 ^ 31 \<and> length (fbos r) < 2 ^ 31
        \<and> length (renderbuffers r) < 2 ^ 31 \<longrightarrow>
      deletions (snd (freePending r)) =
        map MeshFreed (meshes r) @ map ShaderFreed (shaders r) @ batch TEXTURE (textures r)
        @ batch FRAMEBUFFER (fbos r) @ batch RENDERBUFFER (renderbuffers r))
   \<and> deletions_locked False (snd (freePending r))"
proof -
  have state: "fst (freePending r) =
       r\<lparr>meshes := [], shaders := [], textures := [], fbos := [], renderbuffers := []\<rparr>"
    by (rule freePending_state)
  have trace: "snd (freePending r) =
       [RsrcLock] @ map FreeMesh (meshes r) @ map FreeShader (shaders r) @ [RsrcUnlock]
       @ [RsrcLock, RsrcUnlock]
       @ (if textures r = [] then []
          else [Delete TEXTURE (int32 (int (length (textures r)))) (textures r), Flush])
       @ [RsrcLock]
       @ (if fbos r = [] then []
          else [Delete FRAMEBUFFER (int32 (int (length (fbos r)))) (fbos r), Flush])
       @ [RsrcUnlock]
       @ [RsrcLock]
       @ (if renderbuffers r = [] then []
          else [Delete RENDERBUFFER (int32 (int (length (renderbuffers r)))) (renderbuffers r),
                Flush])
       @ [RsrcUnlock]"
    by (simp add: freePending_trace freeTextures_def freeFBOs_def freeRenderbuffers_def)
  have dels: "deletions (snd (freePending r)) =
        map MeshFreed (meshes r) @ map ShaderFreed (shaders r) @ batch TEXTURE (textures r)
        @ batch FRAMEBUFFER (fbos r) @ batch RENDERBUFFER (renderbuffers r)"
    if "length (textures r) < 2 ^ 31 \<and> length (fbos r) < 2 ^ 31
        \<and> length (renderbuffers r) < 2 ^ 31"
    using that
    by (simp add: freePending_trace deletions_append deletions_map_FreeMesh
        deletions_map_FreeShader deletions_freeTextures deletions_freeFBOs
        deletions_freeRenderbuffers deletion_of_def)
  have locked: "deletions_locked False (snd (freePending r))"
    by (rule deletions_locked_freePending)
  from state trace dels locked show ?thesis by blast
qed

theorem freePending_pass_witness:
  "length (textures rsrc_all_kinds) < 2 ^ 31 \<and> length (fbos rsrc_all_kinds) < 2 ^ 31
   \<and> length (renderbuffers rsrc_all_kinds) < 2 ^ 31
   \<and> fst (freePending rsrc_all_kinds) =
       \<lparr>meshes = [], shaders = [], textures = [], fbos = [], renderbuffers = []\<rparr>
   \<and> snd (freePending rsrc_all_kinds) =
       [RsrcLock, FreeMesh 1, FreeMesh 2, FreeShader 3, RsrcUnlock,
        RsrcLock, RsrcUnlock, Delete TEXTURE 1 [4], Flush,
        RsrcLock, Delete FRAMEBUFFER 2 [5, 6], Flush, RsrcUnlock,
        RsrcLock, Delete RENDERBUFFER 1 [7], Flush, RsrcUnlock]
   \<and> deletions (snd (freePending rsrc_all_kinds)) =
       [MeshFreed 1, MeshFreed 2, ShaderFreed 3, Batch TEXTURE [4],
        Batch FRAMEBUFFER [5, 6], Batch RENDERBUFFER [7]]
   \<and> deletions_locked False (snd (freePending rsrc_all_kinds))"
proof -
  have small: "length (textures rsrc_all_kinds) < 2 ^ 31 \<and> length (fbos rsrc_all_kinds) < 2 ^ 31
     \<and> length (renderbuffers rsrc_all_kinds) < 2 ^ 31"
    by (simp add: rsrc_all_kinds_def)
  have count: "int32 1 = 1" "int32 2 = 2"
    by (simp_all add: int32_def)
  from freePending_pass [of rsrc_all_kinds] small
  have "fst (freePending rsrc_all_kinds) =
       rsrc_all_kinds\<lparr>meshes := [], shaders := [], textures := [], fbos := [],
         renderbuffers := []\<rparr>"
    and "snd (freePending rsrc_all_kinds) =
       [RsrcLock] @ map FreeMesh (meshes rsrc_all_kinds)
       @ map FreeShader (shaders rsrc_all_kinds) @ [RsrcUnlock]
       @ [RsrcLock, RsrcUnlock]
       @ (if textures rsrc_all_kinds = [] then []
          else [Delete TEXTURE (int32 (int (length (textures rsrc_all_kinds))))
                  (textures rsrc_all_kinds), Flush])
       @ [RsrcLock]
       @ (if fbos rsrc_all_kinds = [] then []
          else [Delete FRAMEBUFFER (int32 (int (length (fbos rsrc_all_kinds))))
                  (fbos rsrc_all_kinds), Flush])
       @ [RsrcUnlock]
       @ [RsrcLock]
       @ (if renderbuffers rsrc_all_kinds = [] then []
          else [Delete RENDERBUFFER (int32 (int (length (renderbuffers rsrc_all_kinds))))
                  (renderbuffers rsrc_all_kinds), Flush])
       @ [RsrcUnlock]"
    and "deletions (snd (freePending rsrc_all_kinds)) =
        map MeshFreed (meshes rsrc_all_kinds) @ map ShaderFreed (shaders rsrc_all_kinds)
        @ batch TEXTURE (textures rsrc_all_kinds) @ batch FRAMEBUFFER (fbos rsrc_all_kinds)
        @ batch RENDERBUFFER (renderbuffers rsrc_all_kinds)"
    and "deletions_locked False (snd (freePending rsrc_all_kinds))"
    by blast+
  with small count show ?thesis
    by (simp add: rsrc_all_kinds_def batch_def)
qed

section \<open>Waiting for occlusion queries\<close>
















section \<open>RenderToTexture\<close>














lemma same_driver_refl: "same_driver c d d"
  by (simp add: same_driver_def)


lemma same_driver_emit: "same_driver c d (emit es d)"
  by (simp add: same_driver_def emit_def)





















text \<open>
  C10. For a configuration that is not valid, \<open>RenderToTexture\<close> panics at once, whatever
  the device and its extensions, and leaves the device as it is; so whenever it returns
  nil, the configuration has passed the validity check.
\<close>

theorem RenderToTexture_invalid_panics:
  "(\<not> Valid cf \<longrightarrow> RenderToTexture k cf d = Some (Inl Panic_invalid_configuration, d))
   \<and> (RenderToTexture k cf d = Some (Inr None, d') \<longrightarrow> Valid cf)"
  by (auto simp: RenderToTexture_def)

theorem RenderToTexture_invalid_panics_witness:
  "RenderToTexture 3 cfg_invalid device0 = Some (Inl Panic_invalid_configuration, device0)
   \<and> RenderToTexture 3 cfg0 device_without_fbo = Some (Inr None, device_without_fbo)
   \<and> Valid cfg0"
proof -
  have "\<not> Valid cfg_invalid" by (simp add: cfg_invalid_def)
  with RenderToTexture_invalid_panics [of cfg_invalid 3 device0]
  have 1: "RenderToTexture 3 cfg_invalid device0 = Some (Inl Panic_invalid_configuration, device0)"
    by blast
  have 2: "RenderToTexture 3 cfg0 device_without_fbo = Some (Inr None, device_without_fbo)"
    by (simp add: RenderToTexture_def cfg0_def device_without_fbo_def)
  with RenderToTexture_invalid_panics [of cfg0 3 device_without_fbo device_without_fbo]
  have "Valid cfg0" by blast
  with 1 2 show ?thesis by blast
qed

section \<open>Where the code departs from its own comments\<close>

text \<open>
  C1. The closure of \<open>hookedRender\<close> is commented "Execute all pending operations", but
  its loop \<open>for i := 0; i < len(r.renderExec); i++\<close> counts \<open>i\<close> up while every receive
  makes \<open>len\<close> smaller. Started with two clears queued, it runs the first, finds \<open>i = 1\<close>
  not below the length 1, and returns true with the second clear still queued: only the
  color buffer has been cleared in the frame it presents.
\<close>

theorem Render_leaves_queued_operation:
  "map_option (apsnd queued_and_cleared) (exec 3 (op_Render hook_nil hook_nil) device_two_queued)
     = Some (True, [op_ClearDepth (Rect 0 0 100 100) 1 hook_nil hook_nil], [COLOR_BUFFER_BIT])"
  by code_simp

text \<open>
  C2. \<open>rttCanvas.Render\<close> passes nil where the other canvas methods pass \<open>rttBegin\<close>, so
  the device's current canvas is nil when the closure of \<open>hookedRender\<close> tests it: for a
  \<open>Render\<close> issued through a canvas the closure returns true, the clock goes from 0 to 1
  and the device thread swaps the buffers.
\<close>

theorem rttCanvas_Render_presents_frame:
  "map_option clock device_with_canvas = Some 0
   \<and> map_option fst
        (Option.bind device_with_canvas (exec 2 (op_Render hook_nil (hook_Render_post 0))))
       = Some True
   \<and> map_option clock (Option.bind device_with_canvas (rttCanvas_Render 3 0)) = Some 1
   \<and> map_option (last \<circ> trace) (Option.bind device_with_canvas (rttCanvas_Render 3 0))
       = Some SwapBuffers"
  by code_simp

text \<open>
  C3. Of the canvas methods only \<open>Clear\<close> asks \<open>noop\<close>. On a canvas whose count of live
  textures has reached zero, with nothing queued, \<open>ClearDepth\<close> on a non-empty rectangle
  sends its closure, and the device thread runs it and clears the depth buffer.
\<close>

theorem rttCanvas_ClearDepth_after_release:
  "map_option (noop 0) device_released = Some True
   \<and> map_option queued_and_cleared device_released = Some ([], [])
   \<and> map_option (renderExec \<circ> rttCanvas_ClearDepth 0 (Rect 0 0 10 10) 1) device_released
       = Some [op_ClearDepth (Rect 0 0 10 10) 1 (hook_rttBegin 0) (hook_rttEnd 0)]
   \<and> map_option queued_and_cleared
        (Option.bind (map_option (rttCanvas_ClearDepth 0 (Rect 0 0 10 10) 1) device_released)
           (run_fn 1))
       = Some ([], [DEPTH_BUFFER_BIT])"
  by code_simp

text \<open>
  C4. \<open>RenderToTexture\<close> is commented "clear everything now", but it clears the rectangle
  \<open>image.Rect(0, 0, 0, 0)\<close>, which is empty, and the hooked clears return at once for an
  empty rectangle. For a canvas with a live color texture (so \<open>noop\<close> is false) the call
  returns the canvas with nothing queued and no buffer cleared.
\<close>

theorem RenderToTexture_clears_nothing:
  "map_option (apsnd queued_and_cleared) (RenderToTexture 2 cfg_tex device0)
     = Some (Inr (Some 0), [], [])
   \<and> map_option (noop 0 \<circ> snd) (RenderToTexture 2 cfg_tex device0) = Some False"
  by code_simp


section \<open>The fullscreen toggle in useProps\<close>




section \<open>Pre-draw validation\<close>

lemma load_meshes_unloadable:
  "m \<in> set ms \<Longrightarrow> unloadable_mesh (mesh_of h m) \<Longrightarrow>
   fst (load_meshes dev ms h) = Some ErrNoVertices"
proof (induction ms arbitrary: h)
  case Nil
  then show ?case by simp
next
  case (Cons a ms)
  show ?case
  proof (cases "a = m")
    case True
    with Cons.prems(2) show ?thesis by (auto simp: unloadable_mesh_def)
  next
    case False
    with Cons.prems have in_rest: "m \<in> set ms" by simp
    have 1: "fst (load_meshes dev ms h) = Some ErrNoVertices"
      using Cons.IH [OF in_rest Cons.prems(2)] .
    have "unloadable_mesh (mesh_of (h\<lparr>mesh_of := (mesh_of h)(a := LoadMesh dev (mesh_of h a))\<rparr>) m)"
      using False Cons.prems(2) by simp
    from Cons.IH [OF in_rest this]
    have 2: "fst (load_meshes dev ms (h\<lparr>mesh_of := (mesh_of h)(a := LoadMesh dev (mesh_of h a))\<rparr>))
        = Some ErrNoVertices" .
    show ?thesis using 1 2 by simp
  qed
qed

lemma load_textures_unloadable:
  "t \<in> set ts \<Longrightarrow> unloadable_texture (texture_of h t) \<Longrightarrow>
   fst (load_textures dev ts h) = Some ErrNilSource"
proof (induction ts arbitrary: h)
  case Nil
  then show ?case by simp
next
  case (Cons a ts)
  show ?case
  proof (cases "a = t")
    case True
    with Cons.prems(2) show ?thesis by (auto simp: unloadable_texture_def)
  next
    case False
    with Cons.prems have in_rest: "t \<in> set ts" by simp
    have 1: "fst (load_textures dev ts h) = Some ErrNilSource"
      using Cons.IH [OF in_rest Cons.prems(2)] .
    have "unloadable_texture
        (texture_of (h\<lparr>texture_of := (texture_of h)(a := LoadTexture dev (texture_of h a))\<rparr>) t)"
      using False Cons.prems(2) by simp
    from Cons.IH [OF in_rest this]
    have 2: "fst (load_textures dev ts
        (h\<lparr>texture_of := (texture_of h)(a := LoadTexture dev (texture_of h a))\<rparr>))
        = Some ErrNilSource" .
    show ?thesis using 1 2 by simp
  qed
qed

lemma load_meshes_skips:
  "\<forall>m\<in>set ms. Loaded_mesh (mesh_of h m) \<and> \<not> HasChanged (mesh_of h m) \<Longrightarrow>
   load_meshes dev ms h = (None, h)"
  by (induction ms) simp_all

lemma load_textures_skips:
  "\<forall>t\<in>set ts. Loaded (texture_of h t) \<Longrightarrow> load_textures dev ts h = (None, h)"
  by (induction ts) simp_all

lemma load_meshes_frame:
  "texture_of (snd (load_meshes dev ms h)) = texture_of h
   \<and> shader_of (snd (load_meshes dev ms h)) = shader_of h"
  by (induction ms arbitrary: h) auto

lemma load_textures_frame:
  "mesh_of (snd (load_textures dev ts h)) = mesh_of h
   \<and> shader_of (snd (load_textures dev ts h)) = shader_of h"
  by (induction ts arbitrary: h) auto

lemma load_meshes_distinct:
  "distinct ms \<Longrightarrow> \<forall>m\<in>set ms. \<not> unloadable_mesh (mesh_of h m) \<Longrightarrow>
   load_meshes dev ms h =
     (None, h\<lparr>mesh_of := (\<lambda>m. if m \<in> set ms
                                  \<and> \<not> (Loaded_mesh (mesh_of h m) \<and> \<not> HasChanged (mesh_of h m))
                               then LoadMesh dev (mesh_of h m) else mesh_of h m)\<rparr>)"
proof (induction ms arbitrary: h)
  case Nil
  then show ?case by simp
next
  case (Cons a ms)
  from Cons.prems have d: "distinct ms" and nin: "a \<notin> set ms"
    and ok_a: "\<not> unloadable_mesh (mesh_of h a)"
    and ok: "\<forall>m\<in>set ms. \<not> unloadable_mesh (mesh_of h m)" by simp_all
  show ?case
  proof (cases "Loaded_mesh (mesh_of h a) \<and> \<not> HasChanged (mesh_of h a)")
    case True
    have "(\<lambda>m. if m \<in> set (a # ms)
                  \<and> \<not> (Loaded_mesh (mesh_of h m) \<and> \<not> HasChanged (mesh_of h m))
               then LoadMesh dev (mesh_of h m) else mesh_of h m)
        = (\<lambda>m. if m \<in> set ms
                  \<and> \<not> (Loaded_mesh (mesh_of h m) \<and> \<not> HasChanged (mesh_of h m))
               then LoadMesh dev (mesh_of h m) else mesh_of h m)"
      using True by (intro ext) auto
    with True Cons.IH [OF d ok] show ?thesis by simp
  next
    case False
    let ?h = "h\<lparr>mesh_of := (mesh_of h)(a := LoadMesh dev (mesh_of h a))\<rparr>"
    from False ok_a have v: "length (Vertices (mesh_of h a)) \<noteq> 0"
      by (auto simp: unloadable_mesh_def)
    have ok': "\<forall>m\<in>set ms. \<not> unloadable_mesh (mesh_of ?h m)"
      using ok nin by auto
    let ?F' = "\<lambda>m. if m \<in> set ms
                  \<and> \<not> (Loaded_mesh (mesh_of ?h m) \<and> \<not> HasChanged (mesh_of ?h m))
               then LoadMesh dev (mesh_of ?h m) else mesh_of ?h m"
    let ?F = "\<lambda>m. if m \<in> set (a # ms)
                  \<and> \<not> (Loaded_mesh (mesh_of h m) \<and> \<not> HasChanged (mesh_of h m))
               then LoadMesh dev (mesh_of h m) else mesh_of h m"
    have eq: "?F' = ?F"
      using False nin by (intro ext) auto
    have step: "load_meshes dev (a # ms) h = load_meshes dev ms ?h"
      using False v by auto
    have "load_meshes dev ms ?h = (None, ?h\<lparr>mesh_of := ?F'\<rparr>)"
      by (rule Cons.IH [OF d ok'])
    also have "?h\<lparr>mesh_of := ?F'\<rparr> = h\<lparr>mesh_of := ?F\<rparr>"
      by (simp only: eq) simp
    finally show ?thesis by (simp only: step)
  qed
qed

lemma load_textures_distinct:
  "distinct ts \<Longrightarrow> \<forall>t\<in>set ts. \<not> unloadable_texture (texture_of h t) \<Longrightarrow>
   load_textures dev ts h =
     (None, h\<lparr>texture_of := (\<lambda>t. if t \<in> set ts \<and> \<not> Loaded (texture_of h t)
                                  then LoadTexture dev (texture_of h t) else texture_of h t)\<rparr>)"
proof (induction ts arbitrary: h)
  case Nil
  then show ?case by simp
next
  case (Cons a ts)
  from Cons.prems have d: "distinct ts" and nin: "a \<notin> set ts"
    and ok_a: "\<not> unloadable_texture (texture_of h a)"
    and ok: "\<forall>t\<in>set ts. \<not> unloadable_texture (texture_of h t)" by simp_all
  show ?case
  proof (cases "Loaded (texture_of h a)")
    case True
    have "(\<lambda>t. if t \<in> set (a # ts) \<and> \<not> Loaded (texture_of h t)
               then LoadTexture dev (texture_of h t) else texture_of h t)
        = (\<lambda>t. if t \<in> set ts \<and> \<not> Loaded (texture_of h t)
               then LoadTexture dev (texture_of h t) else texture_of h t)"
      using True by (intro ext) auto
    with True Cons.IH [OF d ok] show ?thesis by simp
  next
    case False
    let ?h = "h\<lparr>texture_of := (texture_of h)(a := LoadTexture dev (texture_of h a))\<rparr>"
    from False ok_a have v: "Source (texture_of h a) \<noteq> None"
      by (auto simp: unloadable_texture_def)
    have ok': "\<forall>t\<in>set ts. \<not> unloadable_texture (texture_of ?h t)"
      using ok nin by auto
    let ?F' = "\<lambda>t. if t \<in> set ts \<and> \<not> Loaded (texture_of ?h t)
               then LoadTexture dev (texture_of ?h t) else texture_of ?h t"
    let ?F = "\<lambda>t. if t \<in> set (a # ts) \<and> \<not> Loaded (texture_of h t)
               then LoadTexture dev (texture_of h t) else texture_of h t"
    have eq: "?F' = ?F"
      using False nin by (intro ext) auto
    have step: "load_textures dev (a # ts) h = load_textures dev ts ?h"
      using False v by auto
    have "load_textures dev ts ?h = (None, ?h\<lparr>texture_of := ?F'\<rparr>)"
      by (rule Cons.IH [OF d ok'])
    also have "?h\<lparr>texture_of := ?F'\<rparr> = h\<lparr>texture_of := ?F\<rparr>"
      by (simp only: eq) simp
    finally show ?thesis by (simp only: step)
  qed
qed

lemma load_shader_frame:
  "mesh_of (load_shader dev s h) = mesh_of h \<and> texture_of (load_shader dev s h) = texture_of h"
  by (simp add: load_shader_def)

lemma error_means_no_draw:
  "snd (fst (PreDraw dev rect ob h)) \<noteq> None \<Longrightarrow> \<not> fst (fst (PreDraw dev rect ob h))"
  by (auto simp: PreDraw_def PreDraw_loads_def split: option.splits prod.splits if_splits)


lemma load_shader_result:
  "load_shader dev s h = h\<lparr>shader_of := (shader_of h)(s := shader_after_load dev (shader_of h s))\<rparr>"
  by (simp add: load_shader_def shader_after_load_def)

lemma load_meshes_reads_meshes:
  "mesh_of h = mesh_of h' \<Longrightarrow> fst (load_meshes dev ms h) = fst (load_meshes dev ms h')"
proof (induction ms arbitrary: h h')
  case Nil
  then show ?case by simp
next
  case (Cons a ms)
  have "mesh_of (h\<lparr>mesh_of := (mesh_of h)(a := LoadMesh dev (mesh_of h a))\<rparr>)
      = mesh_of (h'\<lparr>mesh_of := (mesh_of h')(a := LoadMesh dev (mesh_of h' a))\<rparr>)"
    using Cons.prems by simp
  from Cons.IH [OF this] Cons.IH [OF Cons.prems] Cons.prems show ?case by simp
qed

lemma load_textures_reads_textures:
  "texture_of h = texture_of h' \<Longrightarrow>
   fst (load_textures dev ts h) = fst (load_textures dev ts h')"
proof (induction ts arbitrary: h h')
  case Nil
  then show ?case by simp
next
  case (Cons a ts)
  have "texture_of (h\<lparr>texture_of := (texture_of h)(a := LoadTexture dev (texture_of h a))\<rparr>)
      = texture_of (h'\<lparr>texture_of := (texture_of h')(a := LoadTexture dev (texture_of h' a))\<rparr>)"
    using Cons.prems by simp
  from Cons.IH [OF this] Cons.IH [OF Cons.prems] Cons.prems show ?case by simp
qed

lemma PreDraw_loads_meshes_pass:
  assumes "fst (load_meshes dev (Meshes ob) h) = None"
  shows "fst (PreDraw_loads dev ob s h)
      = (case fst (load_textures dev (Textures ob) h) of
           Some e \<Rightarrow> (False, Some e)
         | None \<Rightarrow> last_check (shader_after_load dev (shader_of h s)))"
proof -
  let ?h0 = "load_shader dev s h"
  let ?h1 = "snd (load_meshes dev (Meshes ob) ?h0)"
  let ?h2 = "snd (load_textures dev (Textures ob) ?h1)"
  have "fst (load_meshes dev (Meshes ob) ?h0) = fst (load_meshes dev (Meshes ob) h)"
    by (rule load_meshes_reads_meshes) (simp add: load_shader_frame)
  with assms have 1: "fst (load_meshes dev (Meshes ob) ?h0) = None"
    by simp
  have "texture_of ?h1 = texture_of h"
    by (simp add: load_meshes_frame load_shader_frame)
  then have 2: "fst (load_textures dev (Textures ob) ?h1)
      = fst (load_textures dev (Textures ob) h)"
    by (rule load_textures_reads_textures)
  have "shader_of ?h2 = shader_of ?h0"
    by (simp add: load_textures_frame load_meshes_frame)
  then have 3: "shader_of ?h2 s = shader_after_load dev (shader_of h s)"
    by (simp add: load_shader_result)
  from 1 2 3 show ?thesis
    by (auto simp: PreDraw_loads_def last_check_def split: prod.splits option.splits)
qed

text \<open>
  C6, as stated, has every mesh with zero vertices and every texture with a nil source
  yield its error. An object whose only mesh was loaded before, has not changed and has
  no vertices left, and whose only texture is loaded and has no source left, passes the
  validation: \<open>draw\<close> is true and there is no error.
\<close>

theorem PreDraw_draws_mesh_without_vertices:
  "\<not> Empty (Rect 0 0 10 10)
   \<and> Meshes object0 = [0] \<and> Vertices (mesh_of memory0 0) = []
   \<and> Textures object0 = [0] \<and> Source (texture_of memory0 0) = None
   \<and> fst (PreDraw loader0 (Rect 0 0 10 10) object0 memory0) = (True, None)"
  by (simp add: Empty_def Rect_def object0_def memory0_def PreDraw_def PreDraw_loads_def
      load_shader_def)

text \<open>
  C6, amended. For a non-empty rectangle \<open>PreDraw\<close> makes its checks in a fixed order and
  the first that fails decides the result, always with \<open>draw = false\<close>: a nil state gives
  \<open>ErrNilState\<close>; else a nil shader gives \<open>ErrNilShader\<close>; else a shader with a compile
  error gives \<open>ErrShaderError\<close>; else an object without meshes gives \<open>ErrNoMeshes\<close>; in
  these four cases nothing has been loaded. Else a mesh that is not loaded or has changed
  and has zero vertices gives \<open>ErrNoVertices\<close>; else, when the loop over the meshes ends
  without an error, a texture that is not loaded and has a nil source gives
  \<open>ErrNilSource\<close>; else, when the loop over the textures ends without an error too, the
  shader is checked once more as the load has left it: a compile error gives
  \<open>ErrShaderError\<close>, and otherwise \<open>draw\<close> is true and there is no error.

  Meshes that are loaded and unchanged and textures that are loaded are skipped: when
  all meshes and textures of the object are such, both loops end without an error and
  without a load, whatever the vertices and sources are. When no mesh and no texture is
  listed twice, and none is as in the two error cases above, both loops end without an
  error, and they have loaded exactly the meshes and textures that are not skipped.
  Whenever an error is returned, \<open>draw\<close> is false.
\<close>

theorem PreDraw_errors:
  assumes "\<not> Empty rect"
  shows "(State ob = None \<longrightarrow> PreDraw dev rect ob h = ((False, Some ErrNilState), h))
    \<and> (State ob \<noteq> None \<and> Shader ob = None
        \<longrightarrow> PreDraw dev rect ob h = ((False, Some ErrNilShader), h))
    \<and> (State ob \<noteq> None \<and> Shader ob = Some s \<and> Error (shader_of h s) \<noteq> []
        \<longrightarrow> PreDraw dev rect ob h = ((False, Some ErrShaderError), h))
    \<and> (State ob \<noteq> None \<and> Shader ob = Some s \<and> Error (shader_of h s) = []
        \<and> Meshes ob = []
        \<longrightarrow> PreDraw dev rect ob h = ((False, Some ErrNoMeshes), h))
    \<and> (State ob \<noteq> None \<and> Shader ob = Some s \<and> Error (shader_of h s) = []
        \<and> (\<exists>m\<in>set (Meshes ob). unloadable_mesh (mesh_of h m))
        \<longrightarrow> fst (PreDraw dev rect ob h) = (False, Some ErrNoVertices))
    \<and> (State ob \<noteq> None \<and> Shader ob = Some s \<and> Error (shader_of h s) = []
        \<and> Meshes ob \<noteq> [] \<and> fst (load_meshes dev (Meshes ob) h) = None
        \<and> (\<exists>t\<in>set (Textures ob). unloadable_texture (texture_of h t))
        \<longrightarrow> fst (PreDraw dev rect ob h) = (False, Some ErrNilSource))
    \<and> (State ob \<noteq> None \<and> Shader ob = Some s \<and> Error (shader_of h s) = []
        \<and> Meshes ob \<noteq> [] \<and> fst (load_meshes dev (Meshes ob) h) = None
        \<and> fst (load_textures dev (Textures ob) h) = None
        \<longrightarrow> fst (PreDraw dev rect ob h) = last_check (shader_after_load dev (shader_of h s)))
    \<and> (State ob \<noteq> None \<and> Shader ob = Some s \<and> Error (shader_of h s) = []
        \<and> Meshes ob \<noteq> []
        \<and> (\<forall>m\<in>set (Meshes ob). Loaded_mesh (mesh_of h m) \<and> \<not> HasChanged (mesh_of h m))
        \<and> (\<forall>t\<in>set (Textures ob). Loaded (texture_of h t))
        \<longrightarrow> PreDraw dev rect ob h =
            (last_check (shader_after_load dev (shader_of h s)),
             h\<lparr>shader_of := (shader_of h)(s := shader_after_load dev (shader_of h s))\<rparr>))
    \<and> (State ob \<noteq> None \<and> Shader ob = Some s \<and> Error (shader_of h s) = []
        \<and> Meshes ob \<noteq> [] \<and> distinct (Meshes ob) \<and> distinct (Textures ob)
        \<and> (\<forall>m\<in>set (Meshes ob). \<not> unloadable_mesh (mesh_of h m))
        \<and> (\<forall>t\<in>set (Textures ob). \<not> unloadable_texture (texture_of h t))
        \<longrightarrow> PreDraw dev rect ob h =
            (last_check (shader_after_load dev (shader_of h s)),
             h\<lparr>shader_of := (shader_of h)(s := shader_after_load dev (shader_of h s)),
               mesh_of :=
                 (\<lambda>m. if m \<in> set (Meshes ob)
                          \<and> \<not> (Loaded_mesh (mesh_of h m) \<and> \<not> HasChanged (mesh_of h m))
                       then LoadMesh dev (mesh_of h m) else mesh_of h m),
               texture_of :=
                 (\<lambda>t. if t \<in> set (Textures ob) \<and> \<not> Loaded (texture_of h t)
                       then LoadTexture dev (texture_of h t) else texture_of h t)\<rparr>))
    \<and> (snd (fst (PreDraw dev rect ob h)) \<noteq> None \<longrightarrow> \<not> fst (fst (PreDraw dev rect ob h)))"
proof (intro conjI impI)
  assume "State ob = None"
  then show "PreDraw dev rect ob h = ((False, Some ErrNilState), h)"
    using assms by (simp add: PreDraw_def)
next
  assume "State ob \<noteq> None \<and> Shader ob = None"
  then show "PreDraw dev rect ob h = ((False, Some ErrNilShader), h)"
    using assms by (auto simp: PreDraw_def)
next
  assume "State ob \<noteq> None \<and> Shader ob = Some s \<and> Error (shader_of h s) \<noteq> []"
  then show "PreDraw dev rect ob h = ((False, Some ErrShaderError), h)"
    using assms by (auto simp: PreDraw_def)
next
  assume "State ob \<noteq> None \<and> Shader ob = Some s \<and> Error (shader_of h s) = []
    \<and> Meshes ob = []"
  then show "PreDraw dev rect ob h = ((False, Some ErrNoMeshes), h)"
    using assms by (auto simp: PreDraw_def)
next
  assume a: "State ob \<noteq> None \<and> Shader ob = Some s \<and> Error (shader_of h s) = []
    \<and> (\<exists>m\<in>set (Meshes ob). unloadable_mesh (mesh_of h m))"
  then obtain m where m: "m \<in> set (Meshes ob)" "unloadable_mesh (mesh_of h m)" by blast
  then have "unloadable_mesh (mesh_of (load_shader dev s h) m)"
    by (simp add: load_shader_frame)
  from load_meshes_unloadable [OF m(1) this]
  have "fst (load_meshes dev (Meshes ob) (load_shader dev s h)) = Some ErrNoVertices" .
  then have "fst (PreDraw_loads dev ob s h) = (False, Some ErrNoVertices)"
    by (auto simp: PreDraw_loads_def split: prod.splits)
  moreover have "Meshes ob \<noteq> []" using m(1) by auto
  ultimately show "fst (PreDraw dev rect ob h) = (False, Some ErrNoVertices)"
    using a assms by (auto simp: PreDraw_def)
next
  assume a: "State ob \<noteq> None \<and> Shader ob = Some s \<and> Error (shader_of h s) = []
    \<and> Meshes ob \<noteq> [] \<and> fst (load_meshes dev (Meshes ob) h) = None
    \<and> (\<exists>t\<in>set (Textures ob). unloadable_texture (texture_of h t))"
  then obtain t where t: "t \<in> set (Textures ob)" "unloadable_texture (texture_of h t)"
    by blast
  from a have "fst (load_meshes dev (Meshes ob) h) = None" by simp
  from PreDraw_loads_meshes_pass [OF this]
  have "fst (PreDraw_loads dev ob s h)
      = (case fst (load_textures dev (Textures ob) h) of
           Some e \<Rightarrow> (False, Some e)
         | None \<Rightarrow> last_check (shader_after_load dev (shader_of h s)))" .
  moreover from load_textures_unloadable [OF t]
  have "fst (load_textures dev (Textures ob) h) = Some ErrNilSource" .
  ultimately have "fst (PreDraw_loads dev ob s h) = (False, Some ErrNilSource)" by simp
  then show "fst (PreDraw dev rect ob h) = (False, Some ErrNilSource)"
    using a assms by (auto simp: PreDraw_def)
next
  assume a: "State ob \<noteq> None \<and> Shader ob = Some s \<and> Error (shader_of h s) = []
    \<and> Meshes ob \<noteq> [] \<and> fst (load_meshes dev (Meshes ob) h) = None
    \<and> fst (load_textures dev (Textures ob) h) = None"
  then have "fst (load_meshes dev (Meshes ob) h) = None" by simp
  from PreDraw_loads_meshes_pass [OF this] a
  have "fst (PreDraw_loads dev ob s h) = last_check (shader_after_load dev (shader_of h s))"
    by simp
  then show "fst (PreDraw dev rect ob h) = last_check (shader_after_load dev (shader_of h s))"
    using a assms by (auto simp: PreDraw_def)
next
  assume a: "State ob \<noteq> None \<and> Shader ob = Some s \<and> Error (shader_of h s) = []
    \<and> Meshes ob \<noteq> []
    \<and> (\<forall>m\<in>set (Meshes ob). Loaded_mesh (mesh_of h m) \<and> \<not> HasChanged (mesh_of h m))
    \<and> (\<forall>t\<in>set (Textures ob). Loaded (texture_of h t))"
  let ?h0 = "load_shader dev s h"
  from a have "\<forall>m\<in>set (Meshes ob).
      Loaded_mesh (mesh_of ?h0 m) \<and> \<not> HasChanged (mesh_of ?h0 m)"
    by (simp add: load_shader_frame)
  then have 1: "load_meshes dev (Meshes ob) ?h0 = (None, ?h0)"
    by (rule load_meshes_skips)
  from a have "\<forall>t\<in>set (Textures ob). Loaded (texture_of ?h0 t)"
    by (simp add: load_shader_frame)
  then have 2: "load_textures dev (Textures ob) ?h0 = (None, ?h0)"
    by (rule load_textures_skips)
  have "PreDraw_loads dev ob s h =
      (if 0 < length (Error (shader_of ?h0 s)) then ((False, Some ErrShaderError), ?h0)
       else ((True, None), ?h0))"
    by (simp add: PreDraw_loads_def 1 2)
  also have "\<dots> =
      (last_check (shader_after_load dev (shader_of h s)),
       h\<lparr>shader_of := (shader_of h)(s := shader_after_load dev (shader_of h s))\<rparr>)"
    by (simp add: load_shader_result last_check_def)
  finally show "PreDraw dev rect ob h =
      (last_check (shader_after_load dev (shader_of h s)),
       h\<lparr>shader_of := (shader_of h)(s := shader_after_load dev (shader_of h s))\<rparr>)"
    using a assms by (auto simp: PreDraw_def)
next
  assume a: "State ob \<noteq> None \<and> Shader ob = Some s \<and> Error (shader_of h s) = []
    \<and> Meshes ob \<noteq> [] \<and> distinct (Meshes ob) \<and> distinct (Textures ob)
    \<and> (\<forall>m\<in>set (Meshes ob). \<not> unloadable_mesh (mesh_of h m))
    \<and> (\<forall>t\<in>set (Textures ob). \<not> unloadable_texture (texture_of h t))"
  let ?h0 = "load_shader dev s h"
  let ?F = "\<lambda>m. if m \<in> set (Meshes ob)
                    \<and> \<not> (Loaded_mesh (mesh_of h m) \<and> \<not> HasChanged (mesh_of h m))
                 then LoadMesh dev (mesh_of h m) else mesh_of h m"
  let ?G = "\<lambda>t. if t \<in> set (Textures ob) \<and> \<not> Loaded (texture_of h t)
                 then LoadTexture dev (texture_of h t) else texture_of h t"
  let ?h1 = "?h0\<lparr>mesh_of := ?F\<rparr>"
  from a have d: "distinct (Meshes ob)" and d': "distinct (Textures ob)" by simp_all
  from a have "\<forall>m\<in>set (Meshes ob). \<not> unloadable_mesh (mesh_of ?h0 m)"
    by (simp add: load_shader_frame)
  from load_meshes_distinct [OF d this, of dev]
  have 1: "load_meshes dev (Meshes ob) ?h0 = (None, ?h1)"
    by (simp add: load_shader_frame cong: if_cong)
  from a have "\<forall>t\<in>set (Textures ob). \<not> unloadable_texture (texture_of ?h1 t)"
    by (simp add: load_shader_frame)
  from load_textures_distinct [OF d' this, of dev]
  have 2: "load_textures dev (Textures ob) ?h1 = (None, ?h1\<lparr>texture_of := ?G\<rparr>)"
    by (simp add: load_shader_frame cong: if_cong)
  let ?h2 = "?h1\<lparr>texture_of := ?G\<rparr>"
  have "PreDraw_loads dev ob s h =
      (if 0 < length (Error (shader_of ?h2 s)) then ((False, Some ErrShaderError), ?h2)
       else ((True, None), ?h2))"
    by (simp only: PreDraw_loads_def 1 2 prod.case option.case)
  also have "\<dots> =
      (last_check (shader_after_load dev (shader_of h s)),
       h\<lparr>shader_of := (shader_of h)(s := shader_after_load dev (shader_of h s)),
         mesh_of := ?F, texture_of := ?G\<rparr>)"
    by (simp add: load_shader_result last_check_def)
  finally show "PreDraw dev rect ob h =
      (last_check (shader_after_load dev (shader_of h s)),
       h\<lparr>shader_of := (shader_of h)(s := shader_after_load dev (shader_of h s)),
         mesh_of := ?F, texture_of := ?G\<rparr>)"
    using a assms by (auto simp: PreDraw_def)
next
  assume "snd (fst (PreDraw dev rect ob h)) \<noteq> None"
  then show "\<not> fst (fst (PreDraw dev rect ob h))" by (rule error_means_no_draw)
qed

lemma memory0_facts:
  "\<not> Empty (Rect 0 0 10 10)"
  "Error (shader_of memory0 0) = []" "Error (shader_of memory0 1) \<noteq> []"
  "unloadable_mesh (mesh_of memory0 1)" "\<not> unloadable_mesh (mesh_of memory0 0)"
  "unloadable_texture (texture_of memory0 1)"
  "fst (load_meshes loader0 [0] memory0) = None"
  "Loaded_mesh (mesh_of memory0 0)" "\<not> HasChanged (mesh_of memory0 0)"
  "Loaded (texture_of memory0 0)"
  by (simp_all add: Empty_def Rect_def memory0_def unloadable_mesh_def unloadable_texture_def)

lemma memory1_facts:
  "Error (shader_of memory1 2) = []" "\<not> Loaded_shader (shader_of memory1 2)"
  "fst (load_meshes loader1 [0, 2] memory1) = None"
  "fst (load_textures loader1 [0, 2] memory1) = None"
  "\<not> unloadable_mesh (mesh_of memory1 0)" "\<not> unloadable_mesh (mesh_of memory1 2)"
  "\<not> unloadable_texture (texture_of memory1 0)"
  "\<not> unloadable_texture (texture_of memory1 2)"
  "Loaded_mesh (mesh_of memory1 0)" "\<not> HasChanged (mesh_of memory1 0)"
  "\<not> Loaded_mesh (mesh_of memory1 2)"
  "Loaded (texture_of memory1 0)" "\<not> Loaded (texture_of memory1 2)"
  by (simp_all add: memory1_def memory0_def loader1_def loader0_def unloadable_mesh_def
      unloadable_texture_def)

text \<open>
  The nine cases on concrete objects: the six errors; a shader whose compile error
  shows only after the load; an object whose mesh and texture are loaded and have
  neither vertices nor source left, which is drawn with nothing loaded; and an object
  with a new shader, mesh and texture next to the loaded ones, which is drawn after
  exactly the new ones have been loaded.
\<close>

theorem PreDraw_errors_witness:
  "PreDraw loader0 (Rect 0 0 10 10) (object0\<lparr>State := None\<rparr>) memory0
     = ((False, Some ErrNilState), memory0)
   \<and> PreDraw loader0 (Rect 0 0 10 10) (object0\<lparr>Shader := None\<rparr>) memory0
     = ((False, Some ErrNilShader), memory0)
   \<and> PreDraw loader0 (Rect 0 0 10 10) (object0\<lparr>Shader := Some 1\<rparr>) memory0
     = ((False, Some ErrShaderError), memory0)
   \<and> PreDraw loader0 (Rect 0 0 10 10) (object0\<lparr>Meshes := []\<rparr>) memory0
     = ((False, Some ErrNoMeshes), memory0)
   \<and> fst (PreDraw loader0 (Rect 0 0 10 10) (object0\<lparr>Meshes := [0, 1]\<rparr>) memory0)
     = (False, Some ErrNoVertices)
   \<and> fst (PreDraw loader0 (Rect 0 0 10 10) (object0\<lparr>Textures := [0, 1]\<rparr>) memory0)
     = (False, Some ErrNilSource)
   \<and> fst (PreDraw loader1 (Rect 0 0 10 10) object1 memory1) = (False, Some ErrShaderError)
   \<and> fst (PreDraw loader0 (Rect 0 0 10 10) object0 memory0) = (True, None)
   \<and> mesh_of (snd (PreDraw loader0 (Rect 0 0 10 10) object0 memory0)) 0 = mesh_of memory0 0
   \<and> texture_of (snd (PreDraw loader0 (Rect 0 0 10 10) object0 memory0)) 0
     = texture_of memory0 0
   \<and> fst (PreDraw loader0 (Rect 0 0 10 10) object1 memory1) = (True, None)
   \<and> mesh_of (snd (PreDraw loader0 (Rect 0 0 10 10) object1 memory1)) 0 = mesh_of memory1 0
   \<and> mesh_of (snd (PreDraw loader0 (Rect 0 0 10 10) object1 memory1)) 2
     = \<lparr>Loaded_mesh = True, HasChanged = False, Vertices = [(0, 0, 0)]\<rparr>
   \<and> Loaded (texture_of (snd (PreDraw loader0 (Rect 0 0 10 10) object1 memory1)) 2)
   \<and> Loaded_shader (shader_of (snd (PreDraw loader0 (Rect 0 0 10 10) object1 memory1)) 2)"
proof -
  note t = PreDraw_errors [OF memory0_facts(1), where dev = loader0 and h = memory0]
  have 1: "PreDraw loader0 (Rect 0 0 10 10) (object0\<lparr>State := None\<rparr>) memory0
     = ((False, Some ErrNilState), memory0)"
    using t [where ob = "object0\<lparr>State := None\<rparr>"] by simp
  have 2: "PreDraw loader0 (Rect 0 0 10 10) (object0\<lparr>Shader := None\<rparr>) memory0
     = ((False, Some ErrNilShader), memory0)"
    using t [where ob = "object0\<lparr>Shader := None\<rparr>"] by (simp add: object0_def)
  have 3: "PreDraw loader0 (Rect 0 0 10 10) (object0\<lparr>Shader := Some 1\<rparr>) memory0
     = ((False, Some ErrShaderError), memory0)"
    using t [where ob = "object0\<lparr>Shader := Some 1\<rparr>" and s = 1] memory0_facts
    by (simp add: object0_def)
  have 4: "PreDraw loader0 (Rect 0 0 10 10) (object0\<lparr>Meshes := []\<rparr>) memory0
     = ((False, Some ErrNoMeshes), memory0)"
    using t [where ob = "object0\<lparr>Meshes := []\<rparr>" and s = 0] memory0_facts
    by (simp add: object0_def)
  have 5: "fst (PreDraw loader0 (Rect 0 0 10 10) (object0\<lparr>Meshes := [0, 1]\<rparr>) memory0)
     = (False, Some ErrNoVertices)"
    using t [where ob = "object0\<lparr>Meshes := [0, 1]\<rparr>" and s = 0] memory0_facts
    by (simp add: object0_def)
  have 6: "fst (PreDraw loader0 (Rect 0 0 10 10) (object0\<lparr>Textures := [0, 1]\<rparr>) memory0)
     = (False, Some ErrNilSource)"
    using t [where ob = "object0\<lparr>Textures := [0, 1]\<rparr>" and s = 0] memory0_facts
    by (simp add: object0_def)
  have 7: "fst (PreDraw loader1 (Rect 0 0 10 10) object1 memory1) = (False, Some ErrShaderError)"
    using PreDraw_errors [OF memory0_facts(1), where dev = loader1 and h = memory1
        and ob = object1 and s = 2] memory1_facts
    by (simp add: object1_def last_check_def shader_after_load_def loader1_def memory1_def)
  have 8: "fst (PreDraw loader0 (Rect 0 0 10 10) object0 memory0) = (True, None)
     \<and> mesh_of (snd (PreDraw loader0 (Rect 0 0 10 10) object0 memory0)) 0 = mesh_of memory0 0
     \<and> texture_of (snd (PreDraw loader0 (Rect 0 0 10 10) object0 memory0)) 0
       = texture_of memory0 0"
    using t [where ob = object0 and s = 0] memory0_facts
    by (simp add: object0_def last_check_def shader_after_load_def memory0_def)
  have 9: "fst (PreDraw loader0 (Rect 0 0 10 10) object1 memory1) = (True, None)
     \<and> mesh_of (snd (PreDraw loader0 (Rect 0 0 10 10) object1 memory1)) 0 = mesh_of memory1 0
     \<and> mesh_of (snd (PreDraw loader0 (Rect 0 0 10 10) object1 memory1)) 2
       = \<lparr>Loaded_mesh = True, HasChanged = False, Vertices = [(0, 0, 0)]\<rparr>
     \<and> Loaded (texture_of (snd (PreDraw loader0 (Rect 0 0 10 10) object1 memory1)) 2)
     \<and> Loaded_shader (shader_of (snd (PreDraw loader0 (Rect 0 0 10 10) object1 memory1)) 2)"
    using PreDraw_errors [OF memory0_facts(1), where dev = loader0 and h = memory1
        and ob = object1 and s = 2] memory1_facts
    by (simp add: object1_def last_check_def shader_after_load_def loader0_def memory1_def)
  from 1 2 3 4 5 6 7 8 9 show ?thesis by blast
qed

end
